theory Spec2Isabelle
  imports
    Complex_Main
    "HOL-Library.Word"
    "HOL-Library.List_Lexorder"
    "HOL-Library.Multiset"
begin

section \<open>JavaScript strings and arrays of strings\<close>

text \<open>
  A JavaScript string is a sequence of UTF-16 code units.  The literals of the sources are
  ASCII but for the temperature unit and the drift arrows, whose code units are written
  out as numbers where they occur.  The order of \<^theory_text>\<open>HOL-Library.List_Lexorder\<close>
  on lists of code units is the order \<open>Array.prototype.sort()\<close> uses when it is called
  with no comparator on an array of strings.
\<close>

type_synonym jsstring = "nat list"

definition lit :: "string \<Rightarrow> jsstring" where
  "lit s = map of_char s"

text \<open>\<open>Array.prototype.join(sep)\<close> on an array of strings.\<close>

fun join_with :: "jsstring \<Rightarrow> jsstring list \<Rightarrow> jsstring" where
  "join_with sep [] = []"
| "join_with sep [x] = x"
| "join_with sep (x # y # ys) = x @ sep @ join_with sep (y # ys)"

text \<open>\<open>Number.prototype.toString(radix)\<close> on a non-negative integer, for radix 10 and 36.\<close>

definition digit_char :: "nat \<Rightarrow> nat" where
  "digit_char d = (if d < 10 then 48 + d else 87 + d)"

function to_radix :: "nat \<Rightarrow> nat \<Rightarrow> jsstring" where
  "to_radix r n =
     (if r < 2 \<or> n < r then [digit_char n]
      else to_radix r (n div r) @ [digit_char (n mod r)])"
  by pat_completeness auto
termination
  by (relation "measure (\<lambda>(r, n). n)") auto

declare to_radix.simps [simp del]

subsection \<open>\<open>JSON.stringify\<close> on strings and flat records\<close>

text \<open>
  \<open>QuoteJSONString\<close> of ECMA-262: the quotation mark, the backslash and the control
  characters are escaped, a lone surrogate is written as \<open>\uXXXX\<close>, every other code unit
  stands for itself.
\<close>

definition hex4 :: "nat \<Rightarrow> jsstring" where
  "hex4 c = map (\<lambda>k. digit_char ((c div 16 ^ k) mod 16)) [3, 2, 1, 0]"

definition unicode_escape :: "nat \<Rightarrow> jsstring" where
  "unicode_escape c = [92, 117] @ hex4 c"

definition is_lead_surrogate :: "nat \<Rightarrow> bool" where
  "is_lead_surrogate c \<longleftrightarrow> 55296 \<le> c \<and> c \<le> 56319"

definition is_trail_surrogate :: "nat \<Rightarrow> bool" where
  "is_trail_surrogate c \<longleftrightarrow> 56320 \<le> c \<and> c \<le> 57343"

definition escape_unit :: "nat \<Rightarrow> jsstring" where
  "escape_unit c =
     (if c = 8 then [92, 98]
      else if c = 9 then [92, 116]
      else if c = 10 then [92, 110]
      else if c = 12 then [92, 102]
      else if c = 13 then [92, 114]
      else if c = 34 then [92, 34]
      else if c = 92 then [92, 92]
      else if c < 32 \<or> is_lead_surrogate c \<or> is_trail_surrogate c then unicode_escape c
      else [c])"

fun quote_units :: "jsstring \<Rightarrow> jsstring" where
  "quote_units [] = []"
| "quote_units [c] = escape_unit c"
| "quote_units (c # d # cs) =
     (if is_lead_surrogate c \<and> is_trail_surrogate d then c # d # quote_units cs
      else escape_unit c @ quote_units (d # cs))"

definition json_quote :: "jsstring \<Rightarrow> jsstring" where
  "json_quote s = [34] @ quote_units s @ [34]"

text \<open>A property whose value is \<open>undefined\<close> is left out of the object's text.\<close>

fun json_prop :: "jsstring \<Rightarrow> jsstring option \<Rightarrow> jsstring list" where
  "json_prop k None = []"
| "json_prop k (Some v) = [json_quote k @ [58] @ v]"

definition json_object :: "jsstring list \<Rightarrow> jsstring" where
  "json_object props = [123] @ join_with [44] props @ [125]"

definition json_array :: "jsstring list \<Rightarrow> jsstring" where
  "json_array elems = [91] @ join_with [44] elems @ [93]"

section \<open>Dataset registry\<close>

record DatasetVersions =
  baseline :: jsstring
  reanalysis :: jsstring
  exposure :: jsstring
  connectivity :: jsstring
  observations :: jsstring

text \<open>\<open>DatasetRegistry.versions\<close>.\<close>

definition versions :: DatasetVersions where
  "versions =
     \<lparr>baseline = lit ''CMIP6-v1.2'',
      reanalysis = lit ''v5.1'',
      exposure = lit ''gap-uw-v2.1'',
      connectivity = lit ''commuting-census-2020'',
      observations = lit ''noaa-ncei-2024.10''\<rparr>"

text \<open>The own properties of the object, in the order \<open>JSON.stringify\<close> visits them.\<close>

definition entries :: "DatasetVersions \<Rightarrow> (jsstring \<times> jsstring) list" where
  "entries v =
     [(lit ''baseline'', baseline v),
      (lit ''reanalysis'', reanalysis v),
      (lit ''exposure'', exposure v),
      (lit ''connectivity'', connectivity v),
      (lit ''observations'', observations v)]"

text \<open>
  \<open>hashObject\<close>: the loop keeps a 32-bit signed integer (\<open>hash & hash\<close> is \<open>ToInt32\<close>), so
  \<open>((hash << 5) - hash) + char\<close> is arithmetic on a 32-bit word; the result is the base-36
  text of the absolute value of the signed reading.
\<close>

fun hash_loop :: "32 word \<Rightarrow> jsstring \<Rightarrow> 32 word" where
  "hash_loop h [] = h"
| "hash_loop h (c # cs) = hash_loop ((push_bit 5 h - h) + of_nat c) cs"

definition hashObject :: "(jsstring \<times> jsstring) list \<Rightarrow> jsstring" where
  "hashObject obj =
     (let str = json_object (concat (map (\<lambda>(k, v). json_prop k (Some (json_quote v))) obj));
          hash = hash_loop 0 str
      in to_radix 36 (nat \<bar>sint hash\<bar>))"

definition DatasetRegistry_hash :: jsstring where
  "DatasetRegistry_hash = hashObject (entries versions)"

section \<open>Wizard inputs and the request fingerprint\<close>

datatype precision = Exact | Approximate

text \<open>
  \<open>WizardState\<close> of the wizard flow.  Its field \<open>normalized_location\<close> is never read by the
  orchestrator and is left out.
\<close>

record WizardState =
  location_key :: "jsstring option"
  selected_hazards :: "jsstring list"
  selected_system :: "jsstring option"
  precision_level :: "precision option"

definition precision_text :: "precision \<Rightarrow> jsstring" where
  "precision_text p = (case p of Exact \<Rightarrow> lit ''exact'' | Approximate \<Rightarrow> lit ''approximate'')"

text \<open>\<open>join\<close> writes an \<open>undefined\<close> element as the empty string.\<close>

definition or_empty :: "jsstring option \<Rightarrow> jsstring" where
  "or_empty v = (case v of None \<Rightarrow> [] | Some s \<Rightarrow> s)"

definition generateCacheKey :: "WizardState \<Rightarrow> jsstring" where
  "generateCacheKey inputs =
     (let hazardsKey = join_with (lit '','') (sort (selected_hazards inputs));
          datasetVersionsHash = DatasetRegistry_hash
      in join_with (lit '':'')
           [lit ''wizard'',
            or_empty (location_key inputs),
            (case precision_level inputs of None \<Rightarrow> lit ''approximate'' | Some p \<Rightarrow> precision_text p),
            hazardsKey,
            or_empty (selected_system inputs),
            datasetVersionsHash])"

text \<open>The precondition of the orchestration entry point on its inputs.\<close>

definition inputs_present :: "WizardState \<Rightarrow> bool" where
  "inputs_present inputs \<longleftrightarrow>
     (case location_key inputs of None \<Rightarrow> False | Some l \<Rightarrow> l \<noteq> []) \<and>
     selected_hazards inputs \<noteq> [] \<and>
     (case selected_system inputs of None \<Rightarrow> False | Some s \<Rightarrow> s \<noteq> [])"

text \<open>The precision level the fingerprint is built from: \<open>inputs.precision_level || "approximate"\<close>.\<close>

definition effective_precision :: "WizardState \<Rightarrow> precision" where
  "effective_precision inputs =
     (case precision_level inputs of None \<Rightarrow> Approximate | Some p \<Rightarrow> p)"

text \<open>
  No field value holds a delimiter: neither the location key nor the system tag holds a
  colon, and no hazard tag holds a colon or a comma.
\<close>

definition delimiter_free :: "WizardState \<Rightarrow> bool" where
  "delimiter_free inputs \<longleftrightarrow>
     58 \<notin> set (or_empty (location_key inputs)) \<and>
     58 \<notin> set (or_empty (selected_system inputs)) \<and>
     list_all (\<lambda>h. 58 \<notin> set h \<and> 44 \<notin> set h) (selected_hazards inputs)"

text \<open>
  The inputs of the end-to-end scenarios, with the hazard list left open: location
  \<open>geo_1\<close>, system \<open>Health\<close>, precision \<open>approximate\<close>.
\<close>

definition scenario_inputs :: "jsstring list \<Rightarrow> WizardState" where
  "scenario_inputs hs =
     \<lparr>location_key = Some (lit ''geo_1''), selected_hazards = hs,
      selected_system = Some (lit ''Health''), precision_level = Some Approximate\<rparr>"

section \<open>Untyped values\<close>

text \<open>
  The values a caller can hand to the validator and a remote service can answer with:
  the JSON values, and beside them \<open>undefined\<close>, \<open>NaN\<close>, the two infinities and the
  BigInts.  A finite number is its exact rational value, so the comparisons below are the
  comparisons of the doubles.  An object is the list of its own properties; a read of a
  property the object does not have is \<open>undefined\<close>.

  \<open>JAccessorThrows m\<close> is not a value of its own: where it stands as a property of an
  object or as an element of an array, that property is an accessor whose getter throws
  an \<open>Error\<close> with the message \<open>m\<close> on every read.

  The values are finite trees.  An object that contains itself is not among them: the
  parser reads a value no deeper than the schema goes, so it treats such an object as it
  treats the tree that unfolds it that far, and \<open>JSON.stringify\<close> refuses it with a
  \<open>TypeError\<close>, as it refuses a BigInt.
\<close>

datatype jsnum = NaN | NegInf | Fin rat | PosInf

datatype jsvalue =
    JUndefined
  | JNull
  | JBool bool
  | JNum jsnum
  | JStr jsstring
  | JBigInt int
  | JArr "jsvalue list"
  | JObj "(jsstring \<times> jsvalue) list"
  | JAccessorThrows jsstring

text \<open>
  Exceptions: an \<open>Error\<close> thrown with its message (by the code, or by a getter of the
  input), a \<open>TypeError\<close> of the engine, and a rejection of \<open>fetch\<close> or \<open>json()\<close>.
\<close>

datatype exn = Error jsstring | TypeError jsstring | Rejected jsstring

definition get_prop :: "jsstring \<Rightarrow> (jsstring \<times> jsvalue) list \<Rightarrow> jsvalue" where
  "get_prop k kvs = (case map_of kvs k of None \<Rightarrow> JUndefined | Some v \<Rightarrow> v)"

text \<open>\<open>ToBoolean\<close>: what \<open>if (v)\<close> and \<open>!v\<close> test.\<close>

fun truthy :: "jsvalue \<Rightarrow> bool" where
  "truthy JUndefined = False"
| "truthy JNull = False"
| "truthy (JBool b) = b"
| "truthy (JNum NaN) = False"
| "truthy (JNum (Fin q)) = (q \<noteq> 0)"
| "truthy (JNum NegInf) = True"
| "truthy (JNum PosInf) = True"
| "truthy (JStr s) = (s \<noteq> [])"
| "truthy (JBigInt i) = (i \<noteq> 0)"
| "truthy (JArr vs) = True"
| "truthy (JObj kvs) = True"
| "truthy (JAccessorThrows m) = True"

text \<open>The first exception of a sequence of steps, each of which may throw.\<close>

fun first_thrown :: "exn option list \<Rightarrow> exn option" where
  "first_thrown [] = None"
| "first_thrown (None # xs) = first_thrown xs"
| "first_thrown (Some e # xs) = Some e"

text \<open>
  \<open>JSON.stringify(v)\<close> throws a \<open>TypeError\<close> at the first BigInt it meets, and whatever
  a getter throws at the first accessor that throws; it writes every other value.
\<close>

definition bigint_error :: exn where
  "bigint_error = TypeError (lit ''Do not know how to serialize a BigInt'')"

fun stringify_throws :: "jsvalue \<Rightarrow> exn option" where
  "stringify_throws (JBigInt i) = Some bigint_error"
| "stringify_throws (JAccessorThrows m) = Some (Error m)"
| "stringify_throws (JArr vs) = first_thrown (map stringify_throws vs)"
| "stringify_throws (JObj kvs) = first_thrown (map (\<lambda>(k, v). stringify_throws v) kvs)"
| "stringify_throws JUndefined = None"
| "stringify_throws JNull = None"
| "stringify_throws (JBool b) = None"
| "stringify_throws (JNum x) = None"
| "stringify_throws (JStr s) = None"

fun num_less :: "jsnum \<Rightarrow> int \<Rightarrow> bool" where
  "num_less NaN b = False"
| "num_less NegInf b = True"
| "num_less (Fin q) b = (q < of_int b)"
| "num_less PosInf b = False"

fun num_greater :: "jsnum \<Rightarrow> int \<Rightarrow> bool" where
  "num_greater NaN b = False"
| "num_greater NegInf b = False"
| "num_greater (Fin q) b = (q > of_int b)"
| "num_greater PosInf b = True"

definition show_int :: "int \<Rightarrow> jsstring" where
  "show_int i = (if i < 0 then [45] @ to_radix 10 (nat (- i)) else to_radix 10 (nat i))"

section \<open>The schema library\<close>

text \<open>
  The contract is written with the schema library zod (version 3), which is not part of
  the repository.  A schema is a value; \<open>zparse\<close> is the library's parser on the schema
  constructors the contract uses.  It returns whether the value is valid and the issues it
  raised, in the order the library raises them; \<open>zthrows\<close> is the exception that ends the
  parse before it returns, when a read of the input throws.  A check given a message (\<open>.min(1, "...")\<close>)
  reports that message; a schema given an error map (\<open>{ errorMap: () => ... }\<close>) reports
  the map's message for every issue it raises; otherwise the message is the one of the
  library's default error map.
\<close>

datatype path_seg = Key jsstring | Index nat

text \<open>
  An issue: where, what, and the received value itself for the two issue codes that carry
  it (a literal that does not match, a string that is not one of an enumeration).
\<close>

record issue =
  path :: "path_seg list"
  message :: jsstring
  received :: "jsvalue option"

datatype schema =
    ZString "(nat \<times> jsstring option) option"
  | ZNumber "(int \<times> jsstring option) option" "(int \<times> jsstring option) option"
  | ZEnum "jsstring list" "jsstring option"
  | ZLiteral jsstring "jsstring option"
  | ZArray schema "(nat \<times> jsstring option) option"
  | ZObject "(jsstring \<times> schema) list"
  | ZOptional schema

fun parsed_type :: "jsvalue \<Rightarrow> jsstring" where
  "parsed_type JUndefined = lit ''undefined''"
| "parsed_type JNull = lit ''null''"
| "parsed_type (JBool b) = lit ''boolean''"
| "parsed_type (JNum NaN) = lit ''nan''"
| "parsed_type (JNum NegInf) = lit ''number''"
| "parsed_type (JNum (Fin q)) = lit ''number''"
| "parsed_type (JNum PosInf) = lit ''number''"
| "parsed_type (JStr s) = lit ''string''"
| "parsed_type (JBigInt i) = lit ''bigint''"
| "parsed_type (JArr vs) = lit ''array''"
| "parsed_type (JObj kvs) = lit ''object''"
| "parsed_type (JAccessorThrows m) = lit ''unknown''"

definition or_default :: "jsstring option \<Rightarrow> jsstring \<Rightarrow> jsstring" where
  "or_default custom dflt = (case custom of None \<Rightarrow> dflt | Some m \<Rightarrow> m)"

text \<open>The default error map, for the issue codes the contract can raise.\<close>

definition invalid_type_message :: "jsstring \<Rightarrow> jsvalue \<Rightarrow> jsstring" where
  "invalid_type_message expected v =
     (if v = JUndefined then lit ''Required''
      else lit ''Expected '' @ expected @ lit '', received '' @ parsed_type v)"

definition join_values :: "jsstring list \<Rightarrow> jsstring" where
  "join_values vs = join_with (lit '' | '') (map (\<lambda>v. [39] @ v @ [39]) vs)"

definition invalid_enum_message :: "jsstring list \<Rightarrow> jsstring \<Rightarrow> jsstring" where
  "invalid_enum_message vs got =
     lit ''Invalid enum value. Expected '' @ join_values vs @ lit '', received '' @
     [39] @ got @ [39]"

definition invalid_literal_message :: "jsstring \<Rightarrow> jsstring" where
  "invalid_literal_message expected = lit ''Invalid literal value, expected '' @ json_quote expected"

definition string_too_small_message :: "nat \<Rightarrow> jsstring" where
  "string_too_small_message n =
     lit ''String must contain at least '' @ to_radix 10 n @ lit '' character(s)''"

definition array_too_small_message :: "nat \<Rightarrow> jsstring" where
  "array_too_small_message n =
     lit ''Array must contain at least '' @ to_radix 10 n @ lit '' element(s)''"

definition number_too_small_message :: "int \<Rightarrow> jsstring" where
  "number_too_small_message b = lit ''Number must be greater than or equal to '' @ show_int b"

definition number_too_big_message :: "int \<Rightarrow> jsstring" where
  "number_too_big_message b = lit ''Number must be less than or equal to '' @ show_int b"

definition mk_issue :: "path_seg list \<Rightarrow> jsstring \<Rightarrow> issue" where
  "mk_issue p m = \<lparr>path = p, message = m, received = None\<rparr>"

definition mk_issue_received :: "path_seg list \<Rightarrow> jsstring \<Rightarrow> jsvalue \<Rightarrow> issue" where
  "mk_issue_received p m v = \<lparr>path = p, message = m, received = Some v\<rparr>"

text \<open>The checks of a string, a number and an array; each failed check raises one issue.\<close>

definition string_checks ::
  "(nat \<times> jsstring option) option \<Rightarrow> path_seg list \<Rightarrow> jsstring \<Rightarrow> issue list" where
  "string_checks mn p s =
     (case mn of
        None \<Rightarrow> []
      | Some (n, m) \<Rightarrow>
          if length s < n then [mk_issue p (or_default m (string_too_small_message n))] else [])"

definition number_checks ::
  "(int \<times> jsstring option) option \<Rightarrow> (int \<times> jsstring option) option \<Rightarrow>
   path_seg list \<Rightarrow> jsnum \<Rightarrow> issue list" where
  "number_checks mn mx p x =
     (case mn of
        None \<Rightarrow> []
      | Some (b, m) \<Rightarrow>
          if num_less x b then [mk_issue p (or_default m (number_too_small_message b))] else []) @
     (case mx of
        None \<Rightarrow> []
      | Some (b, m) \<Rightarrow>
          if num_greater x b then [mk_issue p (or_default m (number_too_big_message b))] else [])"

definition array_checks ::
  "(nat \<times> jsstring option) option \<Rightarrow> path_seg list \<Rightarrow> jsvalue list \<Rightarrow> issue list" where
  "array_checks mn p vs =
     (case mn of
        None \<Rightarrow> []
      | Some (n, m) \<Rightarrow>
          if length vs < n then [mk_issue p (or_default m (array_too_small_message n))] else [])"

fun zparse :: "schema \<Rightarrow> path_seg list \<Rightarrow> jsvalue \<Rightarrow> bool \<times> issue list" where
  "zparse (ZString mn) p v =
     (case v of
        JStr s \<Rightarrow> (let iss = string_checks mn p s in (iss = [], iss))
      | _ \<Rightarrow> (False, [mk_issue p (invalid_type_message (lit ''string'') v)]))"
| "zparse (ZNumber mn mx) p v =
     (case v of
        JNum NaN \<Rightarrow> (False, [mk_issue p (invalid_type_message (lit ''number'') v)])
      | JNum x \<Rightarrow> (let iss = number_checks mn mx p x in (iss = [], iss))
      | _ \<Rightarrow> (False, [mk_issue p (invalid_type_message (lit ''number'') v)]))"
| "zparse (ZEnum vs custom) p v =
     (case v of
        JStr s \<Rightarrow>
          if s \<in> set vs then (True, [])
          else (False, [mk_issue_received p (or_default custom (invalid_enum_message vs s)) v])
      | _ \<Rightarrow> (False, [mk_issue p (or_default custom (invalid_type_message (join_values vs) v))]))"
| "zparse (ZLiteral l custom) p v =
     (if v = JStr l then (True, [])
      else (False, [mk_issue_received p (or_default custom (invalid_literal_message l)) v]))"
| "zparse (ZArray s mn) p v =
     (case v of
        JArr vs \<Rightarrow>
          (let iss = array_checks mn p vs;
               rs = map (\<lambda>(i, x). zparse s (p @ [Index i]) x) (enumerate 0 vs)
           in (iss = [] \<and> list_all fst rs, iss @ concat (map snd rs)))
      | _ \<Rightarrow> (False, [mk_issue p (invalid_type_message (lit ''array'') v)]))"
| "zparse (ZObject shape) p v =
     (case v of
        JObj kvs \<Rightarrow>
          (let rs = map (\<lambda>(k, s). zparse s (p @ [Key k]) (get_prop k kvs)) shape
           in (list_all fst rs, concat (map snd rs)))
      | _ \<Rightarrow> (False, [mk_issue p (invalid_type_message (lit ''object'') v)]))"
| "zparse (ZOptional s) p v = (if v = JUndefined then (True, []) else zparse s p v)"

text \<open>
  The reads of the input that can throw.  The parser asks for the type of every value it
  parses, which on an object reads the property \<open>then\<close>; on an object it reads the
  properties of the shape, in order, and parses each as it is read; on an array it
  copies the elements and then parses each.
\<close>

definition accessor_throws :: "jsvalue \<Rightarrow> exn option" where
  "accessor_throws v = (case v of JAccessorThrows m \<Rightarrow> Some (Error m) | _ \<Rightarrow> None)"

definition type_read_throws :: "jsvalue \<Rightarrow> exn option" where
  "type_read_throws v =
     (case v of JObj kvs \<Rightarrow> accessor_throws (get_prop (lit ''then'') kvs) | _ \<Rightarrow> None)"

fun zthrows :: "schema \<Rightarrow> jsvalue \<Rightarrow> exn option" where
  "zthrows (ZString mn) v = type_read_throws v"
| "zthrows (ZNumber mn mx) v = type_read_throws v"
| "zthrows (ZEnum vs custom) v = (case v of JStr s \<Rightarrow> None | _ \<Rightarrow> type_read_throws v)"
| "zthrows (ZLiteral l custom) v = (if v = JStr l then None else type_read_throws v)"
| "zthrows (ZArray s mn) v =
     (case v of
        JArr vs \<Rightarrow>
          first_thrown (map accessor_throws vs @ map (\<lambda>x. zthrows s x) vs)
      | _ \<Rightarrow> type_read_throws v)"
| "zthrows (ZObject shape) v =
     (case v of
        JObj kvs \<Rightarrow>
          first_thrown
            (type_read_throws v #
             concat (map (\<lambda>(k, s). [accessor_throws (get_prop k kvs), zthrows s (get_prop k kvs)])
                       shape))
      | _ \<Rightarrow> type_read_throws v)"
| "zthrows (ZOptional s) v =
     (case type_read_throws v of
        Some e \<Rightarrow> Some e
      | None \<Rightarrow> if v = JUndefined then None else zthrows s v)"

text \<open>\<open>schema.parse(data)\<close>: the exception, or the validity and the issues.\<close>

definition zod_parse :: "schema \<Rightarrow> jsvalue \<Rightarrow> exn + bool \<times> issue list" where
  "zod_parse s v = (case zthrows s v of Some e \<Rightarrow> Inl e | None \<Rightarrow> Inr (zparse s [] v))"




section \<open>The dashboard contract\<close>

text \<open>
  The schemas of \<open>contracts/dashboard\<close>, one constant per schema of the source and in the
  order of its properties.  The degree sign is the code unit 176, the three drift arrows
  are 8593 (up), 8595 (down) and 8594 (right), the less-or-equal sign is 8804.
\<close>

definition degree_C :: jsstring where
  "degree_C = [176, 67]"

definition arrow_up :: jsstring where
  "arrow_up = [8593]"

definition arrow_down :: jsstring where
  "arrow_down = [8595]"

definition arrow_right :: jsstring where
  "arrow_right = [8594]"

definition ConfidenceSchema :: schema where
  "ConfidenceSchema = ZObject
     [(lit ''level'', ZEnum [lit ''High'', lit ''Medium'', lit ''Low'']
         (Some (lit ''Confidence level must be High, Medium, or Low''))),
      (lit ''score'', ZOptional (ZNumber (Some (0, None)) (Some (1, None)))),
      (lit ''reason'', ZString (Some (1, Some (lit ''Confidence reason is required''))))]"

definition CoordinatesSchema :: schema where
  "CoordinatesSchema = ZObject
     [(lit ''lat'', ZNumber (Some (- 90, None))
         (Some (90, Some (lit ''Latitude must be between -90 and 90'')))),
      (lit ''lng'', ZNumber (Some (- 180, None))
         (Some (180, Some (lit ''Longitude must be between -180 and 180''))))]"

definition RegionProfileSchema :: schema where
  "RegionProfileSchema = ZObject
     [(lit ''climate_regime'', ZString (Some (1, Some (lit ''Climate regime is required'')))),
      (lit ''exposure_flags'', ZArray (ZString None) None),
      (lit ''urbanicity'',
         ZOptional (ZEnum [lit ''urban'', lit ''suburban'', lit ''rural''] None)),
      (lit ''elevation_band'', ZOptional (ZString None)),
      (lit ''vegetation_class'', ZOptional (ZString None))]"

definition LocationSchema :: schema where
  "LocationSchema = ZObject
     [(lit ''location_key'', ZString (Some (1, Some (lit ''location_key is required'')))),
      (lit ''normalized_address'',
         ZString (Some (1, Some (lit ''normalized_address is required'')))),
      (lit ''coordinates'', ZOptional CoordinatesSchema),
      (lit ''region_profile'', RegionProfileSchema)]"

definition BaselineSchema :: schema where
  "BaselineSchema = ZObject
     [(lit ''warming_estimate'',
         ZNumber (Some (0, Some (lit ''Warming estimate must be non-negative'')))
           (Some (10, Some (lit ''Warming estimate must be realistic ('' @ [8804] @
              lit ''10'' @ degree_C @ lit '')'')))),
      (lit ''unit'', ZLiteral degree_C (Some (lit ''Unit must be '' @ degree_C))),
      (lit ''period_comparison'',
         ZString (Some (1, Some (lit ''Period comparison is required'')))),
      (lit ''confidence'', ConfidenceSchema)]"

definition DriftSchema :: schema where
  "DriftSchema = ZObject
     [(lit ''direction'', ZEnum [arrow_up, arrow_down, arrow_right]
         (Some (lit ''Drift direction must be '' @ arrow_up @ lit '', '' @ arrow_down @
            lit '', or '' @ arrow_right))),
      (lit ''magnitude'', ZEnum [lit ''Strong'', lit ''Moderate'', lit ''Weak'']
         (Some (lit ''Drift magnitude must be Strong, Moderate, or Weak''))),
      (lit ''confidence'', ZEnum [lit ''High'', lit ''Medium'', lit ''Low''] None)]"

definition RiskNodeSchema :: schema where
  "RiskNodeSchema = ZObject
     [(lit ''id'', ZString (Some (1, Some (lit ''Node ID is required'')))),
      (lit ''label'', ZString (Some (1, Some (lit ''Node label is required'')))),
      (lit ''type'',
         ZEnum [lit ''Risk'', lit ''Impact'', lit ''Stress'', lit ''Response'', lit ''Market'',
                lit ''Behavior'', lit ''Feedback'']
           (Some (lit ''Node type must be valid enum value''))),
      (lit ''severity'', ZNumber (Some (0, Some (lit ''Severity must be >= 0'')))
         (Some (1, Some (lit ''Severity must be <= 1'')))),
      (lit ''description'', ZString (Some (1, Some (lit ''Node description is required'')))),
      (lit ''drivers'', ZArray (ZString None) None),
      (lit ''drift'', DriftSchema),
      (lit ''uncertainty'',
         ZString (Some (1, Some (lit ''Uncertainty description is required''))))]"

definition SpilloverSchema :: schema where
  "SpilloverSchema = ZObject
     [(lit ''score'', ZNumber (Some (0, Some (lit ''Spillover score must be >= 0'')))
         (Some (1, Some (lit ''Spillover score must be <= 1'')))),
      (lit ''linked_communities'', ZArray (ZString None) None),
      (lit ''pathway'', ZString (Some (1, Some (lit ''Spillover pathway is required''))))]"

definition RiskChainSchema :: schema where
  "RiskChainSchema = ZObject
     [(lit ''hazard'', ZString (Some (1, Some (lit ''Hazard is required'')))),
      (lit ''system'', ZString (Some (1, Some (lit ''System is required'')))),
      (lit ''nodes'',
         ZArray RiskNodeSchema (Some (1, Some (lit ''Risk chain must have at least one node'')))),
      (lit ''spillover'', SpilloverSchema)]"

definition DatasetVersionSchema :: schema where
  "DatasetVersionSchema = ZObject
     [(lit ''source_id'', ZString (Some (1, Some (lit ''Source ID is required'')))),
      (lit ''version'', ZString (Some (1, Some (lit ''Version is required'')))),
      (lit ''as_of'', ZString (Some (1, Some (lit ''as_of timestamp is required''))))]"

definition MetadataSchema :: schema where
  "MetadataSchema = ZObject
     [(lit ''as_of_timestamp'', ZString (Some (1, Some (lit ''as_of_timestamp is required'')))),
      (lit ''dataset_versions'',
         ZArray DatasetVersionSchema
           (Some (1, Some (lit ''At least one dataset version is required'')))),
      (lit ''provenance'',
         ZString (Some (1, Some (lit ''Provenance description is required''))))]"

definition DashboardViewModelSchema :: schema where
  "DashboardViewModelSchema = ZObject
     [(lit ''location'', LocationSchema),
      (lit ''baseline'', BaselineSchema),
      (lit ''risk_chain'', RiskChainSchema),
      (lit ''metadata'', MetadataSchema)]"

subsection \<open>\<open>validateDashboard\<close>\<close>

text \<open>
  \<open>err.path.join('.')\<close> writes an array index as its decimal text;
  \<open>format_issue\<close> is the template \<open>`${err.path.join('.')}: ${err.message}`\<close>.
\<close>

fun seg_text :: "path_seg \<Rightarrow> jsstring" where
  "seg_text (Key k) = k"
| "seg_text (Index i) = to_radix 10 i"

definition path_text :: "path_seg list \<Rightarrow> jsstring" where
  "path_text p = join_with (lit ''.'') (map seg_text p)"

definition format_issue :: "issue \<Rightarrow> jsstring" where
  "format_issue err = path_text (path err) @ lit '': '' @ message err"

text \<open>
  The result of \<open>validateDashboard\<close>: \<open>success\<close> and \<open>errors\<close>.  Its field \<open>data\<close>, the parsed
  copy of the input, is read by no caller in the orchestration core and is left out.
\<close>

record validation =
  success :: bool
  errors :: "jsstring list option"

text \<open>
  In development mode the \<open>catch\<close> block logs \<open>JSON.stringify(error.errors, null, 2)\<close>,
  which writes each issue with the received value it carries; that call stands inside
  the \<open>catch\<close> block, so what it throws leaves the function.
\<close>

definition log_throws :: "issue list \<Rightarrow> exn option" where
  "log_throws issues =
     first_thrown
       (map (\<lambda>err. case received err of None \<Rightarrow> None | Some v \<Rightarrow> stringify_throws v) issues)"

text \<open>
  \<open>validateDashboard\<close>, with \<open>process.env.NODE_ENV === "development"\<close> as its first
  argument.  \<open>DashboardViewModelSchema.parse\<close> returns when the value is valid and throws
  a \<open>ZodError\<close> with the issues otherwise (were a value invalid with no issue raised, the
  library would throw a plain \<open>Error\<close>); an exception that is not a \<open>ZodError\<close>, such as
  the one of a getter of the input, reaches the last \<open>return\<close> of the \<open>catch\<close> block.
\<close>

definition validateDashboard :: "bool \<Rightarrow> jsvalue \<Rightarrow> exn + validation" where
  "validateDashboard development data =
     (case zod_parse DashboardViewModelSchema data of
        Inr (True, _) \<Rightarrow> Inr \<lparr>success = True, errors = None\<rparr>
      | Inr (False, issues) \<Rightarrow>
          if issues \<noteq> [] then
            (case (if development then log_throws issues else None) of
               Some thrown \<Rightarrow> Inl thrown
             | None \<Rightarrow> Inr \<lparr>success = False, errors = Some (map format_issue issues)\<rparr>)
          else Inr \<lparr>success = False, errors = Some [lit ''Unknown validation error'']\<rparr>
      | Inl thrown \<Rightarrow> Inr \<lparr>success = False, errors = Some [lit ''Unknown validation error'']\<rparr>)"

text \<open>The failure that lists the issues the parser raises on a value.\<close>

definition failure_report :: "jsvalue \<Rightarrow> validation" where
  "failure_report data =
     \<lparr>success = False,
      errors = Some (map format_issue (snd (zparse DashboardViewModelSchema [] data)))\<rparr>"

section \<open>The simulated services\<close>

definition num :: "rat \<Rightarrow> jsvalue" where
  "num q = JNum (Fin q)"

definition str_array :: "jsstring list \<Rightarrow> jsvalue" where
  "str_array xs = JArr (map JStr xs)"

text \<open>\<open>DatasetRegistry.toArray\<close>.\<close>

definition DatasetRegistry_toArray :: jsvalue where
  "DatasetRegistry_toArray = JArr
     [JObj [(lit ''source_id'', JStr (lit ''IPCC-AR6'')),
            (lit ''version'', JStr (baseline versions)),
            (lit ''as_of'', JStr (lit ''2023-11-10''))],
      JObj [(lit ''source_id'', JStr (lit ''NOAA'')),
            (lit ''version'', JStr (reanalysis versions)),
            (lit ''as_of'', JStr (lit ''2024-01-15''))],
      JObj [(lit ''source_id'', JStr (lit ''ERA5'')),
            (lit ''version'', JStr (observations versions)),
            (lit ''as_of'', JStr (lit ''2024-02-01''))]]"

text \<open>\<open>LocationService.getRegion\<close>.\<close>

definition getRegion :: "jsstring option \<Rightarrow> jsvalue" where
  "getRegion key = JObj
     [(lit ''location_key'', (case key of None \<Rightarrow> JUndefined | Some k \<Rightarrow> JStr k)),
      (lit ''normalized_address'', JStr (lit ''Manhattan, New York, NY'')),
      (lit ''region_profile'', JObj
         [(lit ''climate_regime'', JStr (lit ''Humid Subtropical'')),
          (lit ''exposure_flags'', str_array [lit ''Coastal'', lit ''Urban Heat Island''])])]"

text \<open>
  \<open>ClimateService.getBaseline\<close>.  The unit literal of the source file is the three code
  units 194, 176, 67: a capital A with circumflex before the degree sign and the C.
\<close>

definition source_unit :: jsstring where
  "source_unit = [194, 176, 67]"

definition getBaseline :: "WizardState \<Rightarrow> jsvalue" where
  "getBaseline inputs =
     (let warming = (if precision_level inputs = Some Exact then 14 / 10 else 12 / 10)
      in JObj
        [(lit ''warming_estimate'', num warming),
         (lit ''unit'', JStr source_unit),
         (lit ''period_comparison'', JStr (lit ''vs 1850-1900 global baseline'')),
         (lit ''confidence'', JObj
            [(lit ''level'',
                JStr (if precision_level inputs = Some Exact then lit ''High'' else lit ''Medium'')),
             (lit ''reason'',
                JStr (if precision_level inputs = Some Exact
                      then lit ''Anchored to NOAA v5.1 modern reanalysis''
                      else lit ''ERA5 reanalysis with bias correction''))])])"

text \<open>
  \<open>RiskService.getChain\<close>.  The two drift directions of the source file are the code
  units 226, 8224, 8216 (where an upward arrow is meant) and 226, 8224, 8217 (where a
  rightward arrow is meant).
\<close>

definition source_up :: jsstring where
  "source_up = [226, 8224, 8216]"

definition source_right :: jsstring where
  "source_right = [226, 8224, 8217]"

definition risk_node ::
  "jsstring \<Rightarrow> jsstring \<Rightarrow> jsstring \<Rightarrow> rat \<Rightarrow> jsstring \<Rightarrow> jsstring list \<Rightarrow>
   jsstring \<Rightarrow> jsstring \<Rightarrow> jsstring \<Rightarrow> jsstring \<Rightarrow> jsvalue" where
  "risk_node ident ty label severity description drivers direction magnitude confidence uncertainty =
     JObj
       [(lit ''id'', JStr ident),
        (lit ''type'', JStr ty),
        (lit ''label'', JStr label),
        (lit ''severity'', num severity),
        (lit ''description'', JStr description),
        (lit ''drivers'', str_array drivers),
        (lit ''drift'', JObj
           [(lit ''direction'', JStr direction),
            (lit ''magnitude'', JStr magnitude),
            (lit ''confidence'', JStr confidence)]),
        (lit ''uncertainty'', JStr uncertainty)]"

definition hazardLabel :: "WizardState \<Rightarrow> jsstring" where
  "hazardLabel inputs =
     (case selected_hazards inputs of
        [] \<Rightarrow> lit ''Heat''
      | h # _ \<Rightarrow> if h = [] then lit ''Heat'' else h)"

definition systemLabel :: "WizardState \<Rightarrow> jsstring" where
  "systemLabel inputs =
     (case selected_system inputs of
        None \<Rightarrow> lit ''Health''
      | Some s \<Rightarrow> if s = [] then lit ''Health'' else s)"

definition chain_nodes :: "WizardState \<Rightarrow> jsvalue list" where
  "chain_nodes inputs =
     [risk_node (lit ''node_1'') (lit ''Risk'')
        (lit ''Extreme '' @ hazardLabel inputs @ lit '' Event'') (85 / 100)
        (lit ''Primary hazard intensification event'')
        [lit ''Climate Change'', lit ''Natural Variability'']
        source_up (lit ''Strong'') (lit ''High'') (lit ''Low''),
      risk_node (lit ''node_2'') (lit ''Impact'') (lit ''Infrastructure Stress'') (70 / 100)
        (lit ''Physical degradation of critical assets'')
        [lit ''Extreme Heat'', lit ''Aging Infrastructure'']
        source_up (lit ''Moderate'') (lit ''Medium'') (lit ''Medium''),
      risk_node (lit ''node_3'') (lit ''Stress'')
        (systemLabel inputs @ lit '' System Pressure'') (72 / 100)
        (lit ''Operational capacity near limits'')
        [lit ''Infrastructure Stress'', lit ''Demand Surge'']
        source_right (lit ''Weak'') (lit ''Medium'') (lit ''Medium''),
      risk_node (lit ''node_4'') (lit ''Response'') (lit ''Emergency Response Activation'')
        (58 / 100)
        (lit ''Deployment of contingency resources'')
        [lit ''System Pressure'']
        source_right (lit ''Weak'') (lit ''Low'') (lit ''High''),
      risk_node (lit ''node_5'') (lit ''Market'') (lit ''Economic Ripple Effects'') (45 / 100)
        (lit ''Localized financial disruption'')
        [lit ''System Pressure'', lit ''Response Costs'']
        source_up (lit ''Moderate'') (lit ''Medium'') (lit ''High''),
      risk_node (lit ''node_6'') (lit ''Behavior'') (lit ''Population Adaptation'') (52 / 100)
        (lit ''Short-term behavioral shifts'')
        [lit ''Perceived Risk'']
        source_right (lit ''Weak'') (lit ''Low'') (lit ''Very High''),
      risk_node (lit ''node_7'') (lit ''Feedback'') (lit ''Systemic Feedback Loop'') (38 / 100)
        (lit ''Reinforcing cycle of vulnerability'')
        [lit ''Economic Ripple Effects'', lit ''Population Adaptation'']
        source_up (lit ''Strong'') (lit ''Low'') (lit ''High'')]"

definition getChain :: "WizardState \<Rightarrow> jsvalue" where
  "getChain inputs = JObj
     [(lit ''hazard'', JStr (hazardLabel inputs)),
      (lit ''system'', JStr (systemLabel inputs)),
      (lit ''nodes'', JArr (chain_nodes inputs)),
      (lit ''spillover'', JObj
         [(lit ''score'', num (62 / 100)),
          (lit ''linked_communities'',
             str_array [lit ''Adjacent Metro Area'', lit ''Upstream Region'', lit ''Connected Zone'']),
          (lit ''pathway'', JStr (lit ''Commuting/Labor''))])]"

section \<open>The result cache\<close>

text \<open>
  A cache entry; the clock is \<open>Date.now()\<close>, in milliseconds.  The class keeps a \<open>Map\<close> from
  keys to entries, here a partial function.  Both operations read the clock, which is
  their first argument.
\<close>

record CacheEntry =
  cached :: jsvalue
  expiresAt :: int

type_synonym cache_map = "jsstring \<Rightarrow> CacheEntry option"

definition CacheLayer_get :: "int \<Rightarrow> jsstring \<Rightarrow> cache_map \<Rightarrow> jsvalue option \<times> cache_map" where
  "CacheLayer_get now k c =
     (case c k of
        None \<Rightarrow> (None, c)
      | Some entry \<Rightarrow>
          if now > expiresAt entry then (None, c(k := None))
          else (Some (cached entry), c))"

definition default_ttl :: int where
  "default_ttl = 3600000"

definition CacheLayer_set ::
  "int \<Rightarrow> jsstring \<Rightarrow> jsvalue \<Rightarrow> int option \<Rightarrow> cache_map \<Rightarrow> cache_map" where
  "CacheLayer_set now k v ttl c =
     c(k \<mapsto> \<lparr>cached = v,
              expiresAt = now + (case ttl of None \<Rightarrow> default_ttl | Some t \<Rightarrow> t)\<rparr>)"

definition CacheLayer_clear :: "cache_map \<Rightarrow> cache_map" where
  "CacheLayer_clear c = Map.empty"

section \<open>The orchestration entry point\<close>

datatype APIMode = Mock | Real

record APIConfig =
  mode :: APIMode
  baseURL :: jsstring
  timeout :: nat

text \<open>
  What the remote strategy sends and what comes back.  The request carries the inputs
  themselves where the source sends their JSON text.  \<open>fetch\<close> either rejects (network
  failure, deadline) or resolves to a response, whose \<open>json()\<close> either rejects or gives a
  value.
\<close>

record fetch_request =
  url :: jsstring
  x_request_id :: jsstring
  payload :: WizardState
  deadline :: nat

record fetch_response =
  ok :: bool
  status_code :: nat
  statusText :: jsstring
  body_text :: jsstring
  body_json :: "jsstring + jsvalue"

datatype fetch_outcome = FetchRejected jsstring | FetchResolved fetch_response

text \<open>
  The surroundings of one call: the resolved configuration, whether \<open>NODE_ENV\<close> is
  \<open>development\<close>, the clock readings of the cache read and of the cache write, the text
  of \<open>new Date().toISOString()\<close>, and the remote service.
\<close>

record env =
  config :: APIConfig
  development :: bool
  now_read :: int
  now_write :: int
  iso_now :: jsstring
  remote :: "fetch_request \<Rightarrow> fetch_outcome"

text \<open>
  What a call does beside returning: each log call of the source (by its place), each
  cache operation, each call of a simulated service, the remote call and the validation.
\<close>

datatype log_point =
    MissingInputs
  | DashboardRequest
  | CacheHit
  | CacheMiss
  | UsingMock
  | FetchingReal
  | ApiRequestFailed
  | RealResponseReceived
  | ApiCallFailed
  | ValidationFailed
  | ValidatedOK

datatype event =
    Logged log_point
  | CacheRead jsstring
  | CacheWrite jsstring
  | RegionCalled
  | BaselineCalled
  | ChainCalled
  | Fetched fetch_request
  | Validated

record orch_state =
  cache :: cache_map
  trace :: "event list"

definition emit :: "event list \<Rightarrow> orch_state \<Rightarrow> orch_state" where
  "emit es st = st\<lparr>trace := trace st @ es\<rparr>"

text \<open>\<open>!s\<close> on an optional string: \<open>undefined\<close> and the empty string are falsy.\<close>

definition falsy :: "jsstring option \<Rightarrow> bool" where
  "falsy s = (case s of None \<Rightarrow> True | Some x \<Rightarrow> x = [])"

definition getEndpointURL :: "APIConfig \<Rightarrow> jsstring \<Rightarrow> jsstring" where
  "getEndpointURL cfg p =
     (let cleanPath = (if take 1 p = lit ''/'' then p else lit ''/'' @ p)
      in baseURL cfg @ cleanPath)"

definition is_nullish :: "jsvalue \<Rightarrow> bool" where
  "is_nullish v \<longleftrightarrow> v = JNull \<or> v = JUndefined"

definition metadata_read_error :: exn where
  "metadata_read_error = TypeError (lit ''Cannot read properties of null'')"

text \<open>
  A property read \<open>v.k\<close>: its value (\<open>undefined\<close> where \<open>v\<close> has no such property), and
  the exception it throws, on \<open>null\<close> and \<open>undefined\<close> and on an accessor that throws.
  \<open>chain_throws v k1 k2\<close> is the exception of \<open>v.k1?.k2\<close>.
\<close>

definition read_prop :: "jsvalue \<Rightarrow> jsstring \<Rightarrow> jsvalue" where
  "read_prop v k = (case v of JObj kvs \<Rightarrow> get_prop k kvs | _ \<Rightarrow> JUndefined)"

definition read_throws :: "jsvalue \<Rightarrow> jsstring \<Rightarrow> exn option" where
  "read_throws v k =
     (if is_nullish v then Some metadata_read_error else accessor_throws (read_prop v k))"

definition chain_throws :: "jsvalue \<Rightarrow> jsstring \<Rightarrow> jsstring \<Rightarrow> exn option" where
  "chain_throws v k1 k2 =
     (case read_throws v k1 of
        Some e \<Rightarrow> Some e
      | None \<Rightarrow> if is_nullish (read_prop v k1) then None else read_throws (read_prop v k1) k2)"

text \<open>The simulated strategy: the three services, then the assembled object.\<close>

definition mock_dashboard :: "env \<Rightarrow> WizardState \<Rightarrow> jsvalue" where
  "mock_dashboard e inputs =
     (let region = getRegion (location_key inputs);
          baseline = getBaseline inputs;
          riskChain = getChain inputs
      in JObj
           [(lit ''location'', region),
            (lit ''baseline'', baseline),
            (lit ''risk_chain'', riskChain),
            (lit ''metadata'', JObj
               [(lit ''as_of_timestamp'', JStr (iso_now e)),
                (lit ''dataset_versions'', DatasetRegistry_toArray),
                (lit ''provenance'', JStr (lit
                   ''Combined regional anomaly modeling with local connectivity graph service.''))])])"

definition dispatch_mock :: "env \<Rightarrow> WizardState \<Rightarrow> (exn + jsvalue) \<times> event list" where
  "dispatch_mock e inputs =
     (Inr (mock_dashboard e inputs),
      [Logged UsingMock, RegionCalled, BaselineCalled, ChainCalled])"

text \<open>
  The remote strategy.  Everything from the \<open>fetch\<close> to the log of the received response
  stands in one \<open>try\<close> block, whose \<open>catch\<close> logs and throws the exception again; the log
  of the received response reads \<open>dashboard.metadata?.as_of_timestamp\<close>, which throws on
  \<open>null\<close>.
\<close>

definition dispatch_real ::
  "env \<Rightarrow> jsstring \<Rightarrow> WizardState \<Rightarrow> (exn + jsvalue) \<times> event list" where
  "dispatch_real e cacheKey inputs =
     (let request = \<lparr>url = getEndpointURL (config e) (lit ''/wizard/dashboard''),
                     x_request_id = cacheKey, payload = inputs,
                     deadline = timeout (config e)\<rparr>;
          sent = [Logged FetchingReal, Fetched request]
      in case remote e request of
           FetchRejected m \<Rightarrow> (Inl (Rejected m), sent @ [Logged ApiCallFailed])
         | FetchResolved response \<Rightarrow>
             if \<not> ok response then
               (Inl (Error (lit ''API request failed: '' @ to_radix 10 (status_code response) @
                            lit '' '' @ statusText response)),
                sent @ [Logged ApiRequestFailed, Logged ApiCallFailed])
             else
               (case body_json response of
                  Inl m \<Rightarrow> (Inl (Rejected m), sent @ [Logged ApiCallFailed])
                | Inr dashboard \<Rightarrow>
                    (case chain_throws dashboard (lit ''metadata'') (lit ''as_of_timestamp'') of
                       Some err \<Rightarrow> (Inl err, sent @ [Logged ApiCallFailed])
                     | None \<Rightarrow> (Inr dashboard, sent @ [Logged RealResponseReceived]))))"

definition missing_inputs_message :: jsstring where
  "missing_inputs_message =
     lit ''Missing required inputs: location_key, selected_hazards, selected_system''"

definition invalid_structure_message :: "validation \<Rightarrow> jsstring" where
  "invalid_structure_message v =
     lit ''Invalid dashboard structure: '' @
     (case errors v of None \<Rightarrow> lit ''undefined'' | Some es \<Rightarrow> join_with (lit '', '') es)"

text \<open>
  The path after a cache miss: dispatch, validate, store.  The call of the validator
  stands in no \<open>try\<close> block.  The log of a validation failure reads
  \<open>dashboard.metadata?.dataset_versions\<close>; the log of a success reads properties that the
  parser has read and found valid.
\<close>

definition on_cache_miss ::
  "env \<Rightarrow> WizardState \<Rightarrow> jsstring \<Rightarrow> orch_state \<Rightarrow> (exn + jsvalue) \<times> orch_state" where
  "on_cache_miss e inputs cacheKey st1 =
     (let (fetched, evs) =
            (if mode (config e) = Mock then dispatch_mock e inputs
             else dispatch_real e cacheKey inputs);
          st2 = emit (Logged CacheMiss # evs) st1
      in case fetched of
           Inl err \<Rightarrow> (Inl err, st2)
         | Inr dashboard \<Rightarrow>
             let st3 = emit [Validated] st2
             in case validateDashboard (development e) dashboard of
                  Inl err \<Rightarrow> (Inl err, st3)
                | Inr validation \<Rightarrow>
                    if \<not> success validation then
                      (case chain_throws dashboard (lit ''metadata'') (lit ''dataset_versions'') of
                         Some err \<Rightarrow> (Inl err, st3)
                       | None \<Rightarrow>
                           (Inl (Error (invalid_structure_message validation)),
                            emit [Logged ValidationFailed] st3))
                    else
                      (Inr dashboard,
                       emit [Logged ValidatedOK, CacheWrite cacheKey]
                         (st3\<lparr>cache :=
                            CacheLayer_set (now_write e) cacheKey dashboard None (cache st3)\<rparr>)))"

definition getUnifiedDashboard ::
  "env \<Rightarrow> WizardState \<Rightarrow> orch_state \<Rightarrow> (exn + jsvalue) \<times> orch_state" where
  "getUnifiedDashboard e inputs st =
     (if falsy (location_key inputs) \<or> length (selected_hazards inputs) = 0 \<or>
         falsy (selected_system inputs)
      then (Inl (Error missing_inputs_message), emit [Logged MissingInputs] st)
      else
        let cacheKey = generateCacheKey inputs;
            (hit, c1) = CacheLayer_get (now_read e) cacheKey (cache st);
            st1 = emit [Logged DashboardRequest, CacheRead cacheKey] (st\<lparr>cache := c1\<rparr>)
        in case hit of
             None \<Rightarrow> on_cache_miss e inputs cacheKey st1
           | Some v \<Rightarrow>
               if truthy v then (Inr v, emit [Logged CacheHit] st1)
               else on_cache_miss e inputs cacheKey st1)"

section \<open>The local HTTP route\<close>

text \<open>
  The body of a request as the route reads it: the four properties, each possibly
  absent.  The route answers with a status and either an error object or the dashboard.
\<close>

record dashboard_request =
  rq_location_key :: "jsstring option"
  rq_selected_hazards :: "jsstring list option"
  rq_selected_system :: "jsstring option"
  rq_precision_level :: "precision option"

record api_request =
  http_method :: jsstring
  request_body :: dashboard_request

datatype response_body = ErrorBody jsstring jsstring | DashboardBody jsvalue

record api_response =
  status :: nat
  body :: response_body

fun exn_message :: "exn \<Rightarrow> jsstring" where
  "exn_message (Error m) = m"
| "exn_message (TypeError m) = m"
| "exn_message (Rejected m) = m"

text \<open>The route's mapping of the request to the internal \<open>WizardState\<close>.\<close>

definition to_wizardState :: "dashboard_request \<Rightarrow> WizardState" where
  "to_wizardState dashboardRequest =
     \<lparr>location_key = rq_location_key dashboardRequest,
      selected_hazards =
        (case rq_selected_hazards dashboardRequest of None \<Rightarrow> [] | Some hs \<Rightarrow> hs),
      selected_system = rq_selected_system dashboardRequest,
      precision_level =
        (case rq_precision_level dashboardRequest of
           None \<Rightarrow> Some Approximate
         | Some p \<Rightarrow> Some p)\<rparr>"

definition handler :: "env \<Rightarrow> api_request \<Rightarrow> orch_state \<Rightarrow> api_response \<times> orch_state" where
  "handler e req st =
     (if http_method req \<noteq> lit ''POST'' then
        (\<lparr>status = 405,
          body = ErrorBody (lit ''method_not_allowed'') (lit ''Only POST allowed'')\<rparr>, st)
      else
        let dashboardRequest = request_body req
        in if falsy (rq_location_key dashboardRequest) \<or>
              (case rq_selected_hazards dashboardRequest of
                 None \<Rightarrow> True
               | Some hs \<Rightarrow> length hs = 0)
           then
             (\<lparr>status = 400,
               body = ErrorBody (lit ''invalid_request'')
                        (lit ''Missing required fields: location_key, selected_hazards'')\<rparr>, st)
           else
             (case getUnifiedDashboard e (to_wizardState dashboardRequest) st of
                (Inr result, st') \<Rightarrow> (\<lparr>status = 200, body = DashboardBody result\<rparr>, st')
              | (Inl err, st') \<Rightarrow>
                  (\<lparr>status = 500,
                    body = ErrorBody (lit ''internal_server_error'') (exn_message err)\<rparr>, st')))"

section \<open>The input-drift effect of the wizard flow\<close>

text \<open>
  The state of the \<open>WizardFlow\<close> component (\<open>warnings\<close> counts the toasts shown), its
  request key, and the effect that runs when one of the four input fields has changed.
\<close>

record flow_state =
  currentStep :: nat
  wizardState :: WizardState
  dashboardData :: "jsvalue option"
  isLoadingDashboard :: bool
  dashboardError :: "jsstring option"
  dashboardRequestKey :: "jsstring option"
  warnings :: nat

definition generateDashboardKey :: "WizardState \<Rightarrow> jsstring" where
  "generateDashboardKey state = json_object
     (json_prop (lit ''location_key'') (map_option json_quote (location_key state)) @
      json_prop (lit ''hazards'')
        (Some (json_array (map json_quote (sort (selected_hazards state))))) @
      json_prop (lit ''system'') (map_option json_quote (selected_system state)) @
      json_prop (lit ''precision'')
        (Some (json_quote
           (case precision_level state of
              None \<Rightarrow> lit ''approximate''
            | Some p \<Rightarrow> precision_text p))))"

definition invalidate_effect :: "flow_state \<Rightarrow> flow_state" where
  "invalidate_effect s =
     (if (case dashboardData s of None \<Rightarrow> True | Some d \<Rightarrow> \<not> truthy d) then s
      else
        let currentKey = generateDashboardKey (wizardState s)
        in if (case dashboardRequestKey s of
                 None \<Rightarrow> False
               | Some k \<Rightarrow> k \<noteq> [] \<and> currentKey \<noteq> k)
           then s\<lparr>warnings := warnings s + 1,
                  dashboardData := None,
                  dashboardRequestKey := None,
                  dashboardError := None,
                  currentStep := (if currentStep s > 3 then 3 else currentStep s)\<rparr>
           else s)"

text \<open>A change of the wizard inputs, followed by the effect.\<close>

definition change_inputs :: "WizardState \<Rightarrow> flow_state \<Rightarrow> flow_state" where
  "change_inputs ws s = invalidate_effect (s\<lparr>wizardState := ws\<rparr>)"

section \<open>Concrete values for the scenarios\<close>

text \<open>
  The default configuration of the simulated mode and of the remote mode, with a remote
  service that answers every request with the given reply.
\<close>

definition mock_env :: env where
  "mock_env =
     \<lparr>config = \<lparr>mode = Mock, baseURL = lit ''http://localhost:3000/api'', timeout = 30000\<rparr>,
      development = False, now_read = 1000, now_write = 3100, iso_now = lit ''2026-01-01T00:00:00.000Z'',
      remote = (\<lambda>r. FetchRejected (lit ''fetch failed''))\<rparr>"

definition real_env :: "int \<Rightarrow> jsvalue \<Rightarrow> env" where
  "real_env t reply =
     \<lparr>config = \<lparr>mode = Real, baseURL = lit ''https://api.staging.climatewizard.ai/v1'',
                timeout = 30000\<rparr>,
      development = False, now_read = t, now_write = t + 200, iso_now = lit ''2026-01-01T00:00:00.000Z'',
      remote = (\<lambda>r. FetchResolved
         \<lparr>ok = True, status_code = 200, statusText = lit ''OK'', body_text = [],
          body_json = Inr reply\<rparr>)\<rparr>"

definition fresh_state :: orch_state where
  "fresh_state = \<lparr>cache = Map.empty, trace = []\<rparr>"

text \<open>A dashboard that meets the contract, with one risk node.\<close>

definition sample_dashboard :: jsvalue where
  "sample_dashboard = JObj
     [(lit ''location'', getRegion (Some (lit ''geo_1''))),
      (lit ''baseline'', JObj
         [(lit ''warming_estimate'', num (12 / 10)),
          (lit ''unit'', JStr degree_C),
          (lit ''period_comparison'', JStr (lit ''vs 1850-1900 global baseline'')),
          (lit ''confidence'', JObj
             [(lit ''level'', JStr (lit ''Medium'')),
              (lit ''reason'', JStr (lit ''ERA5 reanalysis with bias correction''))])]),
      (lit ''risk_chain'', JObj
         [(lit ''hazard'', JStr (lit ''Heat'')),
          (lit ''system'', JStr (lit ''Health'')),
          (lit ''nodes'', JArr
             [risk_node (lit ''node_1'') (lit ''Risk'') (lit ''Extreme Heat Event'') (85 / 100)
                (lit ''Primary hazard intensification event'')
                [lit ''Climate Change'', lit ''Natural Variability'']
                arrow_up (lit ''Strong'') (lit ''High'') (lit ''Low'')]),
          (lit ''spillover'', JObj
             [(lit ''score'', num (62 / 100)),
              (lit ''linked_communities'', str_array [lit ''Adjacent Metro Area'']),
              (lit ''pathway'', JStr (lit ''Commuting/Labor''))])]),
      (lit ''metadata'', JObj
         [(lit ''as_of_timestamp'', JStr (lit ''2026-01-01T00:00:00.000Z'')),
          (lit ''dataset_versions'', DatasetRegistry_toArray),
          (lit ''provenance'', JStr (lit ''Remote reply''))])]"



definition baseline_unit_entry :: jsstring where
  "baseline_unit_entry = lit ''baseline.unit: Unit must be '' @ degree_C"

text \<open>A state whose cache holds an entry for the scenario's fingerprint, expiring at 5000.\<close>

definition warm_state :: orch_state where
  "warm_state =
     \<lparr>cache = [generateCacheKey (scenario_inputs [lit ''Heat'', lit ''Flood'']) \<mapsto>
                 \<lparr>cached = sample_dashboard, expiresAt = 5000\<rparr>],
      trace = []\<rparr>"

text \<open>The route's own test of its request: the location key or the hazards are missing.\<close>

definition route_rejects :: "dashboard_request \<Rightarrow> bool" where
  "route_rejects r \<longleftrightarrow>
     falsy (rq_location_key r) \<or>
     (case rq_selected_hazards r of None \<Rightarrow> True | Some hs \<Rightarrow> hs = [])"

text \<open>Requests to the route: the scenario's body, and the same without one of its fields.\<close>

definition scenario_body :: dashboard_request where
  "scenario_body =
     \<lparr>rq_location_key = Some (lit ''geo_1''),
      rq_selected_hazards = Some [lit ''Heat'', lit ''Flood''],
      rq_selected_system = Some (lit ''Health''),
      rq_precision_level = Some Approximate\<rparr>"

definition post :: "dashboard_request \<Rightarrow> api_request" where
  "post b = \<lparr>http_method = lit ''POST'', request_body = b\<rparr>"

text \<open>A wizard flow that shows a dashboard at step 5, computed for the scenario's inputs.\<close>

definition showing_flow :: flow_state where
  "showing_flow =
     \<lparr>currentStep = 5,
      wizardState = scenario_inputs [lit ''Heat'', lit ''Flood''],
      dashboardData = Some sample_dashboard,
      isLoadingDashboard = False,
      dashboardError = None,
      dashboardRequestKey = Some (generateDashboardKey (scenario_inputs [lit ''Heat'', lit ''Flood''])),
      warnings = 0\<rparr>"

text \<open>The hazard and the system of the risk chain of a dashboard.\<close>

definition chain_hazard :: "jsvalue \<Rightarrow> jsvalue" where
  "chain_hazard d = read_prop (read_prop d (lit ''risk_chain'')) (lit ''hazard'')"

definition chain_system :: "jsvalue \<Rightarrow> jsvalue" where
  "chain_system d = read_prop (read_prop d (lit ''risk_chain'')) (lit ''system'')"


definition bigint_payload :: jsvalue where
  "bigint_payload = JObj [(lit ''baseline'', JObj [(lit ''unit'', JBigInt 10)])]"

section \<open>Properties of the fingerprint\<close>

lemma sort_mset_cong: "mset xs = mset ys \<Longrightarrow> sort xs = sort ys"
  by (rule properties_for_sort) simp_all

lemma split_at_sep:
  "c \<notin> set a \<Longrightarrow> c \<notin> set b \<Longrightarrow> a @ c # x = b @ c # y \<Longrightarrow> a = b \<and> x = y"
proof (induction a arbitrary: b)
  case Nil
  then show ?case by (cases b) auto
next
  case (Cons u a)
  then show ?case by (cases b) auto
qed

lemma set_join_with:
  "set (join_with sep xs) \<subseteq> set sep \<union> (\<Union>x\<in>set xs. set x)"
  by (induction sep xs rule: join_with.induct) auto

lemma join_with_Cons:
  "xs \<noteq> [] \<Longrightarrow> join_with sep (x # xs) = x @ sep @ join_with sep xs"
  by (cases xs) simp_all

lemma join_with_inject:
  assumes "xs \<noteq> []" "ys \<noteq> []"
    and "\<forall>x\<in>set xs. c \<notin> set x" "\<forall>y\<in>set ys. c \<notin> set y"
    and "join_with [c] xs = join_with [c] ys"
  shows "xs = ys"
  using assms
proof (induction xs arbitrary: ys)
  case Nil
  then show ?case by simp
next
  case (Cons x xs)
  then obtain y ys' where ys: "ys = y # ys'" by (cases ys) auto
  have cx: "c \<notin> set x" and cy: "c \<notin> set y" using Cons.prems ys by auto
  show ?case
  proof (cases "xs = []")
    case xe: True
    show ?thesis
    proof (cases "ys' = []")
      case True
      with xe Cons.prems ys show ?thesis by simp
    next
      case False
      with xe Cons.prems(5) ys have "x = y @ c # join_with [c] ys'"
        by (simp add: join_with_Cons)
      with cx show ?thesis by simp
    qed
  next
    case xne: False
    show ?thesis
    proof (cases "ys' = []")
      case True
      with xne Cons.prems(5) ys have "y = x @ c # join_with [c] xs"
        by (simp add: join_with_Cons)
      with cy show ?thesis by simp
    next
      case False
      with xne Cons.prems(5) ys
      have "x @ c # join_with [c] xs = y @ c # join_with [c] ys'"
        by (simp add: join_with_Cons)
      from split_at_sep [OF cx cy this]
      have "x = y" and "join_with [c] xs = join_with [c] ys'" by simp_all
      moreover have "xs = ys'"
        using Cons.IH [OF xne False _ _ \<open>join_with [c] xs = join_with [c] ys'\<close>] Cons.prems ys
        by simp
      ultimately show ?thesis using ys by simp
    qed
  qed
qed

text \<open>
  C1.  The fingerprint does not depend on the order of the selected hazards: replacing
  the hazard list of any wizard state by a permutation of it leaves \<open>generateCacheKey\<close>
  unchanged.
\<close>

theorem generateCacheKey_hazard_order:
  "mset hs = mset (selected_hazards s) \<Longrightarrow>
   generateCacheKey (s\<lparr>selected_hazards := hs\<rparr>) = generateCacheKey s"
  by (simp add: generateCacheKey_def sort_mset_cong [of hs "selected_hazards s"])

theorem generateCacheKey_hazard_order_witness:
  "mset [lit ''Flood'', lit ''Heat''] =
     mset (selected_hazards \<lparr>location_key = Some (lit ''geo_1''),
       selected_hazards = [lit ''Heat'', lit ''Flood''],
       selected_system = Some (lit ''Health''), precision_level = Some Approximate\<rparr>) \<and>
   generateCacheKey \<lparr>location_key = Some (lit ''geo_1''),
       selected_hazards = [lit ''Flood'', lit ''Heat''],
       selected_system = Some (lit ''Health''), precision_level = Some Approximate\<rparr> =
   generateCacheKey \<lparr>location_key = Some (lit ''geo_1''),
       selected_hazards = [lit ''Heat'', lit ''Flood''],
       selected_system = Some (lit ''Health''), precision_level = Some Approximate\<rparr>"
  using generateCacheKey_hazard_order [of "[lit ''Flood'', lit ''Heat'']"
      "\<lparr>location_key = Some (lit ''geo_1''),
        selected_hazards = [lit ''Heat'', lit ''Flood''],
        selected_system = Some (lit ''Health''), precision_level = Some Approximate\<rparr>"]
  by simp

lemma generateCacheKey_fields:
  "generateCacheKey s =
     lit ''wizard'' @ 58 # or_empty (location_key s) @ 58 # precision_text (effective_precision s) @
     58 # join_with [44] (sort (selected_hazards s)) @ 58 # or_empty (selected_system s) @
     58 # DatasetRegistry_hash"
  by (simp add: generateCacheKey_def effective_precision_def precision_text_def lit_def
      split: option.splits)

lemma precision_text_colon_free: "58 \<notin> set (precision_text p)"
  by (cases p) (simp_all add: precision_text_def lit_def)

lemma precision_text_inject: "precision_text p = precision_text q \<Longrightarrow> p = q"
  by (cases p; cases q) (simp_all add: precision_text_def lit_def)

lemma hazards_key_colon_free:
  "list_all (\<lambda>h. 58 \<notin> set h \<and> 44 \<notin> set h) hs \<Longrightarrow> 58 \<notin> set (join_with [44] (sort hs))"
  using set_join_with [of "[44]" "sort hs"] by (auto simp: list_all_iff)

lemma key_eq_fields:
  assumes "delimiter_free a" "delimiter_free b"
    and "selected_hazards a \<noteq> []" "selected_hazards b \<noteq> []"
    and eq: "generateCacheKey a = generateCacheKey b"
  shows "or_empty (location_key a) = or_empty (location_key b) \<and>
         effective_precision a = effective_precision b \<and>
         mset (selected_hazards a) = mset (selected_hazards b) \<and>
         or_empty (selected_system a) = or_empty (selected_system b)"
proof -
  let ?H = DatasetRegistry_hash
  from eq have e1: "or_empty (location_key a) @ 58 # precision_text (effective_precision a) @
     58 # join_with [44] (sort (selected_hazards a)) @ 58 # or_empty (selected_system a) @ 58 # ?H
   = or_empty (location_key b) @ 58 # precision_text (effective_precision b) @
     58 # join_with [44] (sort (selected_hazards b)) @ 58 # or_empty (selected_system b) @ 58 # ?H"
    by (simp add: generateCacheKey_fields)
  have la: "58 \<notin> set (or_empty (location_key a))" and lb: "58 \<notin> set (or_empty (location_key b))"
    using assms(1,2) by (simp_all add: delimiter_free_def)
  from split_at_sep [OF la lb e1]
  have l: "or_empty (location_key a) = or_empty (location_key b)"
    and e2: "precision_text (effective_precision a) @
     58 # join_with [44] (sort (selected_hazards a)) @ 58 # or_empty (selected_system a) @ 58 # ?H
   = precision_text (effective_precision b) @
     58 # join_with [44] (sort (selected_hazards b)) @ 58 # or_empty (selected_system b) @ 58 # ?H"
    by simp_all
  from split_at_sep [OF precision_text_colon_free precision_text_colon_free e2]
  have p: "effective_precision a = effective_precision b"
    and e3: "join_with [44] (sort (selected_hazards a)) @ 58 # or_empty (selected_system a) @ 58 # ?H
   = join_with [44] (sort (selected_hazards b)) @ 58 # or_empty (selected_system b) @ 58 # ?H"
    by (simp_all add: precision_text_inject)
  have ha: "list_all (\<lambda>h. 58 \<notin> set h \<and> 44 \<notin> set h) (selected_hazards a)"
    and hb: "list_all (\<lambda>h. 58 \<notin> set h \<and> 44 \<notin> set h) (selected_hazards b)"
    using assms(1,2) by (simp_all add: delimiter_free_def)
  from split_at_sep [OF hazards_key_colon_free [OF ha] hazards_key_colon_free [OF hb] e3]
  have j: "join_with [44] (sort (selected_hazards a)) = join_with [44] (sort (selected_hazards b))"
    and e4: "or_empty (selected_system a) @ 58 # ?H = or_empty (selected_system b) @ 58 # ?H"
    by simp_all
  from e4 have s: "or_empty (selected_system a) = or_empty (selected_system b)" by simp
  have "sort (selected_hazards a) = sort (selected_hazards b)"
  proof (rule join_with_inject [OF _ _ _ _ j])
    show "sort (selected_hazards a) \<noteq> []"
      using assms(3) by (cases "selected_hazards a") (auto simp: insort_is_Cons)
    show "sort (selected_hazards b) \<noteq> []"
      using assms(4) by (cases "selected_hazards b") auto
    show "\<forall>x\<in>set (sort (selected_hazards a)). 44 \<notin> set x"
      using ha by (auto simp: list_all_iff)
    show "\<forall>x\<in>set (sort (selected_hazards b)). 44 \<notin> set x"
      using hb by (auto simp: list_all_iff)
  qed
  then have "mset (sort (selected_hazards a)) = mset (sort (selected_hazards b))" by simp
  then have m: "mset (selected_hazards a) = mset (selected_hazards b)" by simp
  from l p m s show ?thesis by simp
qed

text \<open>
  C2, as the code has it.  \<open>generateCacheKey\<close> joins its fields with a plain colon and
  the hazards with a plain comma and escapes nothing.  For two input snapshots that
  pass the orchestrator's presence check and whose location key, hazard tags and system
  tag hold no colon (and whose hazard tags hold no comma), a difference in the location
  key, in the set of hazards, in the system or in the effective precision level gives
  different fingerprints.
\<close>

theorem generateCacheKey_separates_fields:
  assumes "inputs_present a" "inputs_present b" "delimiter_free a" "delimiter_free b"
    and "location_key a \<noteq> location_key b \<or>
         set (selected_hazards a) \<noteq> set (selected_hazards b) \<or>
         selected_system a \<noteq> selected_system b \<or>
         effective_precision a \<noteq> effective_precision b"
  shows "generateCacheKey a \<noteq> generateCacheKey b"
proof
  assume eq: "generateCacheKey a = generateCacheKey b"
  have ne: "selected_hazards a \<noteq> []" "selected_hazards b \<noteq> []"
    using assms(1,2) by (simp_all add: inputs_present_def)
  from key_eq_fields [OF assms(3,4) ne eq]
  have l: "or_empty (location_key a) = or_empty (location_key b)"
    and p: "effective_precision a = effective_precision b"
    and m: "mset (selected_hazards a) = mset (selected_hazards b)"
    and s: "or_empty (selected_system a) = or_empty (selected_system b)"
    by simp_all
  from l assms(1,2) have "location_key a = location_key b"
    by (auto simp: inputs_present_def or_empty_def split: option.splits)
  moreover from s assms(1,2) have "selected_system a = selected_system b"
    by (auto simp: inputs_present_def or_empty_def split: option.splits)
  moreover from m have "set (selected_hazards a) = set (selected_hazards b)"
    by (rule mset_eq_setD)
  ultimately show False using p assms(5) by simp
qed

theorem generateCacheKey_separates_fields_witness:
  "inputs_present (scenario_inputs [lit ''Heat'']) \<and>
   inputs_present (scenario_inputs [lit ''Heat'', lit ''Flood'']) \<and>
   delimiter_free (scenario_inputs [lit ''Heat'']) \<and>
   delimiter_free (scenario_inputs [lit ''Heat'', lit ''Flood'']) \<and>
   set (selected_hazards (scenario_inputs [lit ''Heat''])) \<noteq>
     set (selected_hazards (scenario_inputs [lit ''Heat'', lit ''Flood''])) \<and>
   generateCacheKey (scenario_inputs [lit ''Heat'']) \<noteq>
     generateCacheKey (scenario_inputs [lit ''Heat'', lit ''Flood''])"
proof -
  have 1: "inputs_present (scenario_inputs [lit ''Heat''])"
    "inputs_present (scenario_inputs [lit ''Heat'', lit ''Flood''])"
    by (simp_all add: scenario_inputs_def inputs_present_def lit_def)
  have 2: "delimiter_free (scenario_inputs [lit ''Heat''])"
    "delimiter_free (scenario_inputs [lit ''Heat'', lit ''Flood''])"
    by (simp_all add: scenario_inputs_def delimiter_free_def or_empty_def lit_def)
  have 3: "set (selected_hazards (scenario_inputs [lit ''Heat''])) \<noteq>
      set (selected_hazards (scenario_inputs [lit ''Heat'', lit ''Flood'']))"
    by (simp add: scenario_inputs_def lit_def)
  from generateCacheKey_separates_fields [OF 1 2] 3 1 2 show ?thesis by simp
qed

text \<open>
  Against C2 as stated: a single hazard tag that holds a comma
  and the two tags it splits into give the same fingerprint, though the hazard sets differ.
\<close>

theorem generateCacheKey_collision:
  "inputs_present (scenario_inputs [lit ''Flood,Heat'']) \<and>
   inputs_present (scenario_inputs [lit ''Heat'', lit ''Flood'']) \<and>
   set (selected_hazards (scenario_inputs [lit ''Flood,Heat''])) \<noteq>
     set (selected_hazards (scenario_inputs [lit ''Heat'', lit ''Flood''])) \<and>
   generateCacheKey (scenario_inputs [lit ''Flood,Heat'']) =
     generateCacheKey (scenario_inputs [lit ''Heat'', lit ''Flood''])"
  by (simp add: scenario_inputs_def inputs_present_def generateCacheKey_def lit_def)

section \<open>Properties of the validator\<close>

lemma first_thrown_None: "first_thrown xs = None \<longleftrightarrow> (\<forall>x\<in>set xs. x = None)"
  by (induction xs rule: first_thrown.induct) auto

lemma zparse_invalid_has_issue:
  "\<not> fst (zparse s p v) \<Longrightarrow> snd (zparse s p v) \<noteq> []"
proof (induction s p v rule: zparse.induct)
  case (1 mn p v)
  then show ?case by (auto simp: Let_def split: jsvalue.splits)
next
  case (2 mn mx p v)
  then show ?case by (auto simp: Let_def split: jsvalue.splits jsnum.splits)
next
  case (3 vs custom p v)
  then show ?case by (auto split: jsvalue.splits if_splits)
next
  case (4 l custom p v)
  then show ?case by (auto split: if_splits)
next
  case (5 s mn p v)
  show ?case
  proof (cases v)
    case (JArr xs)
    show ?thesis
    proof (cases "array_checks mn p xs = []")
      case True
      with "5.prems" JArr obtain i x where ix: "(i, x) \<in> set (enumerate 0 xs)"
        and bad: "\<not> fst (zparse s (p @ [Index i]) x)"
        by (auto simp: Let_def list_all_iff)
      from "5.IH" [OF JArr refl ix refl bad]
      have "snd (zparse s (p @ [Index i]) x) \<noteq> []" .
      with ix JArr show ?thesis by (force simp: Let_def)
    next
      case False
      with JArr show ?thesis by (simp add: Let_def)
    qed
  qed simp_all
next
  case (6 shape p v)
  show ?case
  proof (cases v)
    case (JObj kvs)
    with "6.prems" obtain k s where ks: "(k, s) \<in> set shape"
      and bad: "\<not> fst (zparse s (p @ [Key k]) (get_prop k kvs))"
      by (auto simp: Let_def list_all_iff)
    from "6.IH" [OF JObj ks refl bad]
    have "snd (zparse s (p @ [Key k]) (get_prop k kvs)) \<noteq> []" .
    with ks JObj show ?thesis by (force simp: Let_def)
  qed simp_all
next
  case (7 s p v)
  then show ?case by (auto split: if_splits)
qed

lemma zparse_valid_no_issue:
  "fst (zparse s p v) \<Longrightarrow> snd (zparse s p v) = []"
proof (induction s p v rule: zparse.induct)
  case (1 mn p v)
  then show ?case by (auto simp: Let_def split: jsvalue.splits)
next
  case (2 mn mx p v)
  then show ?case by (auto simp: Let_def split: jsvalue.splits jsnum.splits)
next
  case (3 vs custom p v)
  then show ?case by (auto split: jsvalue.splits if_splits)
next
  case (4 l custom p v)
  then show ?case by (auto split: if_splits)
next
  case (5 s mn p v)
  show ?case
  proof (cases v)
    case (JArr xs)
    with "5.prems" have a: "array_checks mn p xs = []"
      and g: "\<forall>(i, x)\<in>set (enumerate 0 xs). fst (zparse s (p @ [Index i]) x)"
      by (auto simp: Let_def list_all_iff)
    have "\<forall>(i, x)\<in>set (enumerate 0 xs). snd (zparse s (p @ [Index i]) x) = []"
      using "5.IH" [OF JArr refl] g by auto
    with a JArr show ?thesis by (auto simp: Let_def)
  qed (use "5.prems" in simp_all)
next
  case (6 shape p v)
  show ?case
  proof (cases v)
    case (JObj kvs)
    with "6.prems" have g: "\<forall>(k, s)\<in>set shape. fst (zparse s (p @ [Key k]) (get_prop k kvs))"
      by (auto simp: Let_def list_all_iff)
    have "\<forall>(k, s)\<in>set shape. snd (zparse s (p @ [Key k]) (get_prop k kvs)) = []"
      using "6.IH" [OF JObj] g by auto
    with JObj show ?thesis by (auto simp: Let_def)
  qed (use "6.prems" in simp_all)
next
  case (7 s p v)
  then show ?case by (auto split: if_splits)
qed

lemma zparse_valid_iff: "fst (zparse s p v) \<longleftrightarrow> snd (zparse s p v) = []"
  using zparse_invalid_has_issue [of s p v] zparse_valid_no_issue [of s p v] by blast

lemma zparse_object_issue:
  "(k, s) \<in> set shape \<Longrightarrow> i \<in> set (snd (zparse s (p @ [Key k]) (get_prop k kvs))) \<Longrightarrow>
   i \<in> set (snd (zparse (ZObject shape) p (JObj kvs)))"
  by (force simp: Let_def)

lemma zparse_object_invalid:
  "(k, s) \<in> set shape \<Longrightarrow> \<not> fst (zparse s (p @ [Key k]) (get_prop k kvs)) \<Longrightarrow>
   \<not> fst (zparse (ZObject shape) p (JObj kvs))"
  by (force simp: Let_def list_all_iff)

text \<open>
  A value that \<open>JSON.stringify\<close> writes holds no BigInt and no accessor that throws: the
  parser reads it without an exception, and no issue carries a value that cannot be
  written.
\<close>

lemma writable_prop:
  "stringify_throws (JObj kvs) = None \<Longrightarrow> stringify_throws (get_prop k kvs) = None"
  by (auto simp: first_thrown_None get_prop_def split: option.splits dest!: map_of_SomeD)

lemma writable_elem:
  "stringify_throws (JArr vs) = None \<Longrightarrow> x \<in> set vs \<Longrightarrow> stringify_throws x = None"
  by (auto simp: first_thrown_None)

lemma writable_received:
  "stringify_throws v = None \<Longrightarrow> i \<in> set (snd (zparse s p v)) \<Longrightarrow>
   received i = Some r \<Longrightarrow> stringify_throws r = None"
proof (induction s p v arbitrary: i rule: zparse.induct)
  case (1 mn p v)
  then show ?case
    by (auto simp: Let_def string_checks_def mk_issue_def split: jsvalue.splits option.splits if_splits)
next
  case (2 mn mx p v)
  then show ?case
    by (auto simp: Let_def number_checks_def mk_issue_def
        split: jsvalue.splits jsnum.splits option.splits if_splits)
next
  case (3 vs custom p v)
  then show ?case
    by (auto simp: mk_issue_def mk_issue_received_def split: jsvalue.splits if_splits)
next
  case (4 l custom p v)
  then show ?case by (auto simp: mk_issue_received_def split: if_splits)
next
  case (5 s mn p v)
  show ?case
  proof (cases v)
    case (JArr xs)
    from "5.prems"(2) JArr consider "i \<in> set (array_checks mn p xs)"
      | n x where "(n, x) \<in> set (enumerate 0 xs)" "i \<in> set (snd (zparse s (p @ [Index n]) x))"
      by (auto simp: Let_def)
    then show ?thesis
    proof cases
      case 1
      with "5.prems"(3) show ?thesis
        by (auto simp: array_checks_def mk_issue_def split: option.splits if_splits)
    next
      case 2
      from 2(1) have "x \<in> set xs" by (auto simp: in_set_enumerate_eq)
      with "5.prems"(1) JArr have "stringify_throws x = None" by (simp add: writable_elem)
      from "5.IH" [OF JArr refl 2(1) refl this 2(2) "5.prems"(3)] show ?thesis .
    qed
  qed (use "5.prems" in \<open>auto simp: mk_issue_def\<close>)
next
  case (6 shape p v)
  show ?case
  proof (cases v)
    case (JObj kvs)
    from "6.prems"(2) JObj obtain k s where ks: "(k, s) \<in> set shape"
      and m: "i \<in> set (snd (zparse s (p @ [Key k]) (get_prop k kvs)))"
      by (auto simp: Let_def)
    from "6.prems"(1) JObj have "stringify_throws (get_prop k kvs) = None"
      by (simp only: writable_prop)
    from "6.IH" [OF JObj ks refl this m "6.prems"(3)] show ?thesis .
  qed (use "6.prems" in \<open>auto simp: mk_issue_def\<close>)
next
  case (7 s p v)
  then show ?case by (auto split: if_splits)
qed

lemma writable_log: "stringify_throws v = None \<Longrightarrow> log_throws (snd (zparse s p v)) = None"
  using writable_received [of v _ s p]
  by (auto simp: log_throws_def first_thrown_None split: option.splits)

lemma writable_no_accessor: "stringify_throws v = None \<Longrightarrow> accessor_throws v = None"
  by (cases v) (simp_all add: accessor_throws_def)

lemma writable_type_read: "stringify_throws v = None \<Longrightarrow> type_read_throws v = None"
  by (cases v) (simp_all add: type_read_throws_def writable_prop writable_no_accessor)

lemma writable_zthrows: "stringify_throws v = None \<Longrightarrow> zthrows s v = None"
proof (induction s v rule: zthrows.induct)
  case (5 s mn v)
  show ?case
  proof (cases v)
    case (JArr xs)
    have "\<forall>x\<in>set xs. stringify_throws x = None"
      using "5.prems" JArr by (simp add: writable_elem)
    then have "\<forall>x\<in>set xs. accessor_throws x = None \<and> zthrows s x = None"
      using "5.IH" [OF JArr] by (auto simp: writable_no_accessor)
    with JArr show ?thesis by (auto simp: first_thrown_None)
  qed (use "5.prems" in \<open>simp_all add: writable_type_read\<close>)
next
  case (6 shape v)
  show ?case
  proof (cases v)
    case (JObj kvs)
    have w: "\<And>k. stringify_throws (get_prop k kvs) = None"
      using "6.prems" JObj by (simp only: writable_prop)
    have "\<forall>(k, s)\<in>set shape. accessor_throws (get_prop k kvs) = None \<and>
        zthrows s (get_prop k kvs) = None"
      using "6.IH" [OF JObj] w by (auto simp: writable_no_accessor)
    moreover have "type_read_throws v = None" using "6.prems" by (rule writable_type_read)
    ultimately show ?thesis using JObj by (auto simp: first_thrown_None)
  qed (use "6.prems" in \<open>simp_all add: writable_type_read\<close>)
qed (auto simp: writable_type_read split: jsvalue.splits option.splits)

section \<open>Properties of \<open>validateDashboard\<close>\<close>










lemma writable_validated:
  "stringify_throws v = None \<Longrightarrow>
   validateDashboard dev v =
     Inr (if fst (zparse DashboardViewModelSchema [] v) then \<lparr>success = True, errors = None\<rparr>
          else failure_report v)"
proof -
  assume w: "stringify_throws v = None"
  obtain valid issues where z: "zparse DashboardViewModelSchema [] v = (valid, issues)"
    by (cases "zparse DashboardViewModelSchema [] v")
  with zparse_valid_iff [of DashboardViewModelSchema "[]" v] have i: "valid \<longleftrightarrow> issues = []" by simp
  from writable_log [OF w, of DashboardViewModelSchema "[]"] z have l: "log_throws issues = None" by simp
  from writable_zthrows [OF w] have t: "zthrows DashboardViewModelSchema v = None" .
  show ?thesis using z i l t
    by (auto simp: validateDashboard_def zod_parse_def failure_report_def)
qed




text \<open>The values of the examples.\<close>
lemma sample_dashboard_writable: "stringify_throws sample_dashboard = None"
  by (simp add: sample_dashboard_def getRegion_def risk_node_def DatasetRegistry_toArray_def
      num_def str_array_def)

lemmas schema_defs = DashboardViewModelSchema_def LocationSchema_def BaselineSchema_def
  RiskChainSchema_def MetadataSchema_def RegionProfileSchema_def ConfidenceSchema_def
  CoordinatesSchema_def RiskNodeSchema_def DriftSchema_def SpilloverSchema_def
  DatasetVersionSchema_def

lemma sample_dashboard_parses: "zparse DashboardViewModelSchema [] sample_dashboard = (True, [])"
  by (simp add: sample_dashboard_def schema_defs getRegion_def
      risk_node_def DatasetRegistry_toArray_def versions_def num_def str_array_def
      get_prop_def string_checks_def number_checks_def array_checks_def
      degree_C_def arrow_up_def arrow_down_def arrow_right_def lit_def Let_def)

lemma sample_dashboard_valid:
  "validateDashboard dev sample_dashboard = Inr \<lparr>success = True, errors = None\<rparr>"
  by (simp add: writable_validated sample_dashboard_writable sample_dashboard_parses)







text \<open>
  In development mode the log of the issues is written inside the \<open>catch\<close> block.  On a
  payload whose \<open>baseline.unit\<close> is a BigInt the issue of the unit carries that BigInt,
  \<open>JSON.stringify\<close> throws, and the exception leaves the function; outside development
  mode the same payload gets the failure that lists its issues.
\<close>

lemma validateDashboard_development_throws:
  "validateDashboard True bigint_payload = Inl bigint_error \<and>
   validateDashboard False bigint_payload = Inr (failure_report bigint_payload)"
  by (simp add: validateDashboard_def zod_parse_def failure_report_def bigint_payload_def
      schema_defs type_read_throws_def accessor_throws_def get_prop_def log_throws_def
      mk_issue_def mk_issue_received_def invalid_type_message_def or_default_def lit_def Let_def)

section \<open>Properties of the cache and of the entry point\<close>

text \<open>
  C4, as the code has it.  A read no later than the stored expiry returns the value that
  was set and leaves the cache as it is; in particular, with a time-to-live that is not
  negative, a read at the clock reading of the write returns the value.  A read after
  the expiry returns nothing and removes the entry.  A second \<open>set\<close> on the same key
  replaces the entry, with the expiry counted from the second write.  With no
  time-to-live given, the expiry is 3,600,000 ms after the write.
\<close>

theorem CacheLayer_set_then_get:
  "(now' \<le> now + ttl \<longrightarrow>
      CacheLayer_get now' k (CacheLayer_set now k v (Some ttl) c) =
        (Some v, CacheLayer_set now k v (Some ttl) c)) \<and>
   (0 \<le> ttl \<longrightarrow> fst (CacheLayer_get now k (CacheLayer_set now k v (Some ttl) c)) = Some v) \<and>
   (c k = Some entry \<and> now' > expiresAt entry \<longrightarrow>
      CacheLayer_get now' k c = (None, c(k := None))) \<and>
   (now' > now + ttl \<longrightarrow>
      CacheLayer_get now' k (CacheLayer_set now k v (Some ttl) c) = (None, c(k := None))) \<and>
   CacheLayer_set now2 k v2 ttl2 (CacheLayer_set now k v (Some ttl) c) =
     CacheLayer_set now2 k v2 ttl2 c \<and>
   CacheLayer_set now k v None c = c(k \<mapsto> \<lparr>cached = v, expiresAt = now + 3600000\<rparr>)"
  by (auto simp: CacheLayer_get_def CacheLayer_set_def default_ttl_def)

theorem CacheLayer_set_then_get_witness:
  "CacheLayer_get 1500 (lit ''k'') (CacheLayer_set 1000 (lit ''k'') sample_dashboard (Some 500) Map.empty) =
     (Some sample_dashboard, CacheLayer_set 1000 (lit ''k'') sample_dashboard (Some 500) Map.empty) \<and>
   fst (CacheLayer_get 1000 (lit ''k'') (CacheLayer_set 1000 (lit ''k'') sample_dashboard (Some 0) Map.empty)) = Some sample_dashboard \<and>
   CacheLayer_get 1501 (lit ''k'') (CacheLayer_set 1000 (lit ''k'') sample_dashboard (Some 500) Map.empty) = (None, Map.empty) \<and>
   CacheLayer_get 1501 (lit ''k'') [lit ''k'' \<mapsto> \<lparr>cached = sample_dashboard, expiresAt = 1500\<rparr>] = (None, Map.empty)"
proof -
  let ?e = "\<lparr>cached = sample_dashboard, expiresAt = 1500\<rparr>"
  note a = CacheLayer_set_then_get [of 1500 1000 500 "lit ''k''" sample_dashboard Map.empty ?e 0 JNull None]
  note b = CacheLayer_set_then_get [of 1000 1000 0 "lit ''k''" sample_dashboard Map.empty ?e 0 JNull None]
  note c = CacheLayer_set_then_get [of 1501 1000 500 "lit ''k''" sample_dashboard Map.empty ?e 0 JNull None]
  note d = CacheLayer_set_then_get [of 1501 1000 500 "lit ''k''" sample_dashboard "[lit ''k'' \<mapsto> ?e]" ?e 0 JNull None]
  from a have 1: "CacheLayer_get 1500 (lit ''k'') (CacheLayer_set 1000 (lit ''k'') sample_dashboard (Some 500) Map.empty) =
     (Some sample_dashboard, CacheLayer_set 1000 (lit ''k'') sample_dashboard (Some 500) Map.empty)"
    by simp
  from b have 2: "fst (CacheLayer_get 1000 (lit ''k'') (CacheLayer_set 1000 (lit ''k'') sample_dashboard (Some 0) Map.empty)) = Some sample_dashboard"
    by simp
  from c have 3: "CacheLayer_get 1501 (lit ''k'') (CacheLayer_set 1000 (lit ''k'') sample_dashboard (Some 500) Map.empty) = (None, Map.empty)"
    by simp
  from d have 4: "CacheLayer_get 1501 (lit ''k'') [lit ''k'' \<mapsto> ?e] = (None, Map.empty)"
    by simp
  from 1 2 3 4 show ?thesis by simp
qed

text \<open>
  Against C4 as stated, for every time-to-live: an entry set
  with a negative time-to-live is already expired at a read with the same clock reading.
\<close>

theorem CacheLayer_negative_ttl_counterexample:
  "fst (CacheLayer_get 1000 (lit ''k'') (CacheLayer_set 1000 (lit ''k'') sample_dashboard (Some (- 1)) Map.empty)) = None"
  by (simp add: CacheLayer_get_def CacheLayer_set_def)

lemma inputs_check: "(falsy (location_key i) \<or> selected_hazards i = [] \<or> falsy (selected_system i)) = (\<not> inputs_present i)"
  by (auto simp: falsy_def inputs_present_def split: option.splits)

lemma inputs_present_iff:
  "inputs_present i \<longleftrightarrow>
     \<not> falsy (location_key i) \<and> selected_hazards i \<noteq> [] \<and> \<not> falsy (selected_system i)"
  by (auto simp: falsy_def inputs_present_def split: option.splits)

text \<open>
  C6.  When the location key is unset (or empty), or no hazard is selected, or the system
  is unset (or empty), \<open>getUnifiedDashboard\<close> fails with the error
  \<open>Missing required inputs: location_key, selected_hazards, selected_system\<close>; the cache is
  as it was, and the only thing the call did is the log of that error: no fingerprint,
  no cache read or write, no dispatch.
\<close>

theorem missing_inputs_fail_first:
  "falsy (location_key inputs) \<or> selected_hazards inputs = [] \<or> falsy (selected_system inputs) \<Longrightarrow>
   getUnifiedDashboard e inputs st =
     (Inl (Error missing_inputs_message), st\<lparr>trace := trace st @ [Logged MissingInputs]\<rparr>)"
  by (auto simp: getUnifiedDashboard_def emit_def)

theorem missing_inputs_fail_first_witness:
  "getUnifiedDashboard mock_env (scenario_inputs []) fresh_state =
     (Inl (Error missing_inputs_message), \<lparr>cache = Map.empty, trace = [Logged MissingInputs]\<rparr>)"
  using missing_inputs_fail_first [of "scenario_inputs []" mock_env fresh_state]
  by (simp add: scenario_inputs_def fresh_state_def)

lemma validated_is_object:
  "validateDashboard dev d = Inr r \<Longrightarrow> success r \<Longrightarrow> \<exists>kvs. d = JObj kvs"
proof -
  assume "validateDashboard dev d = Inr r" "success r"
  then have "fst (zparse DashboardViewModelSchema [] d)"
    by (auto simp: validateDashboard_def zod_parse_def
        split: sum.splits prod.splits bool.splits if_splits option.splits)
  then show ?thesis by (cases d) (simp_all add: DashboardViewModelSchema_def)
qed

lemma hit_result:
  assumes "inputs_present inputs"
    and "cache st (generateCacheKey inputs) = Some entry"
    and "now_read e \<le> expiresAt entry" and "truthy (cached entry)"
  shows "getUnifiedDashboard e inputs st =
     (Inr (cached entry),
      st\<lparr>trace := trace st @ [Logged DashboardRequest, CacheRead (generateCacheKey inputs),
                                Logged CacheHit]\<rparr>)"
  using assms
  by (simp add: getUnifiedDashboard_def inputs_check CacheLayer_get_def emit_def Let_def)

lemma miss_result_cases:
  "on_cache_miss e inputs k st = (Inr d, st') \<Longrightarrow>
   (\<exists>r. validateDashboard (development e) d = Inr r \<and> success r) \<and>
   cache st' = CacheLayer_set (now_write e) k d None (cache st)"
  by (auto simp: on_cache_miss_def Let_def emit_def
      split: prod.splits sum.splits if_splits option.splits)

lemma truthy_validated: "validateDashboard dev d = Inr r \<Longrightarrow> success r \<Longrightarrow> truthy d"
  using validated_is_object [of dev d r] by auto

lemma success_leaves_entry:
  assumes "getUnifiedDashboard e inputs st = (Inr d, st')"
  shows "inputs_present inputs \<and> truthy d \<and>
    (\<exists>entry. cache st' (generateCacheKey inputs) = Some entry \<and> cached entry = d \<and>
       (cache st (generateCacheKey inputs) = None \<longrightarrow>
          expiresAt entry = now_write e + default_ttl))"
proof -
  let ?k = "generateCacheKey inputs"
  from assms have present: "inputs_present inputs"
    by (auto simp: getUnifiedDashboard_def inputs_present_iff split: if_splits)
  obtain hit c1 where g: "CacheLayer_get (now_read e) ?k (cache st) = (hit, c1)"
    by (cases "CacheLayer_get (now_read e) ?k (cache st)")
  let ?st1 = "emit [Logged DashboardRequest, CacheRead ?k] (st\<lparr>cache := c1\<rparr>)"
  show ?thesis
  proof (cases "case hit of None \<Rightarrow> False | Some v \<Rightarrow> truthy v")
    case True
    then obtain v where hv: "hit = Some v" "truthy v" by (auto split: option.splits)
    with assms present g have "d = v" "st' = emit [Logged CacheHit] ?st1"
      by (auto simp: getUnifiedDashboard_def inputs_check Let_def)
    moreover from g hv obtain entry where "cache st ?k = Some entry" "cached entry = v" "c1 = cache st"
      by (auto simp: CacheLayer_get_def split: option.splits if_splits)
    ultimately show ?thesis using present hv by (simp add: emit_def)
  next
    case False
    with assms present g have m: "on_cache_miss e inputs ?k ?st1 = (Inr d, st')"
      by (auto simp: getUnifiedDashboard_def inputs_check Let_def split: option.splits)
    from miss_result_cases [OF m]
    obtain r where r: "validateDashboard (development e) d = Inr r" "success r"
      and c: "cache st' = CacheLayer_set (now_write e) ?k d None (cache ?st1)" by blast
    from r have "truthy d" by (rule truthy_validated)
    with c show ?thesis using present
      by (simp add: CacheLayer_set_def)
  qed
qed

lemma sample_dashboard_object: "\<not> is_nullish sample_dashboard" "truthy sample_dashboard"
  by (simp_all add: sample_dashboard_def is_nullish_def)

lemma sample_dashboard_reads:
  "chain_throws sample_dashboard (lit ''metadata'') (lit ''as_of_timestamp'') = None"
  by (simp add: chain_throws_def read_throws_def read_prop_def accessor_throws_def
      is_nullish_def sample_dashboard_def get_prop_def lit_def)

lemma scenario_present: "hs \<noteq> [] \<Longrightarrow> inputs_present (scenario_inputs hs)"
  by (simp add: inputs_present_def scenario_inputs_def lit_def)

lemma real_first_call:
  "hs \<noteq> [] \<Longrightarrow>
   getUnifiedDashboard (real_env t sample_dashboard) (scenario_inputs hs) fresh_state =
     (Inr sample_dashboard,
      \<lparr>cache = [generateCacheKey (scenario_inputs hs) \<mapsto>
                  \<lparr>cached = sample_dashboard, expiresAt = t + 200 + default_ttl\<rparr>],
       trace = [Logged DashboardRequest, CacheRead (generateCacheKey (scenario_inputs hs)),
                Logged CacheMiss, Logged FetchingReal,
                Fetched \<lparr>url = lit ''https://api.staging.climatewizard.ai/v1/wizard/dashboard'',
                         x_request_id = generateCacheKey (scenario_inputs hs),
                         payload = scenario_inputs hs, deadline = 30000\<rparr>,
                Logged RealResponseReceived, Validated, Logged ValidatedOK,
                CacheWrite (generateCacheKey (scenario_inputs hs))]\<rparr>)"
  using scenario_present [of hs]
  by (simp add: getUnifiedDashboard_def inputs_check CacheLayer_get_def fresh_state_def
      on_cache_miss_def dispatch_real_def real_env_def emit_def sample_dashboard_valid
      sample_dashboard_object sample_dashboard_reads [unfolded lit_def, simplified]
      CacheLayer_set_def getEndpointURL_def
      lit_def Let_def)

text \<open>
  C5.  On a cache hit (the cache holds an entry for the fingerprint that has not expired
  at the read), \<open>getUnifiedDashboard\<close> returns the cached value; the cache is as it was
  and the call did nothing but log the request, read the cache and log the hit: no
  simulated service, no remote call, no validation, no cache write.  Hence after a call
  that returned a dashboard, a second call with the same inputs, read no later than the
  expiry of the stored entry (the default time-to-live after the write, when the first
  call found nothing cached), returns the same dashboard and dispatches nothing.
\<close>

theorem cache_hit_no_dispatch:
  "(inputs_present inputs \<and> cache st (generateCacheKey inputs) = Some entry \<and>
    now_read e \<le> expiresAt entry \<and> truthy (cached entry) \<longrightarrow>
      getUnifiedDashboard e inputs st =
        (Inr (cached entry),
         st\<lparr>trace := trace st @ [Logged DashboardRequest, CacheRead (generateCacheKey inputs),
                                   Logged CacheHit]\<rparr>)) \<and>
   (getUnifiedDashboard e inputs st = (Inr d, st1) \<longrightarrow>
      (\<exists>stored. cache st1 (generateCacheKey inputs) = Some stored \<and> cached stored = d \<and>
         (cache st (generateCacheKey inputs) = None \<longrightarrow>
            expiresAt stored = now_write e + default_ttl) \<and>
         (\<forall>e2. now_read e2 \<le> expiresAt stored \<longrightarrow>
            getUnifiedDashboard e2 inputs st1 =
              (Inr d,
               st1\<lparr>trace := trace st1 @ [Logged DashboardRequest,
                   CacheRead (generateCacheKey inputs), Logged CacheHit]\<rparr>))))"
proof (intro conjI impI)
  assume "inputs_present inputs \<and> cache st (generateCacheKey inputs) = Some entry \<and>
    now_read e \<le> expiresAt entry \<and> truthy (cached entry)"
  then show "getUnifiedDashboard e inputs st =
        (Inr (cached entry),
         st\<lparr>trace := trace st @ [Logged DashboardRequest, CacheRead (generateCacheKey inputs),
                                   Logged CacheHit]\<rparr>)"
    using hit_result [of inputs st entry e] by simp
next
  assume first: "getUnifiedDashboard e inputs st = (Inr d, st1)"
  from success_leaves_entry [OF first]
  obtain stored where present: "inputs_present inputs" and t: "truthy d"
    and c: "cache st1 (generateCacheKey inputs) = Some stored" and v: "cached stored = d"
    and x: "cache st (generateCacheKey inputs) = None \<longrightarrow>
          expiresAt stored = now_write e + default_ttl"
    by auto
  have "\<forall>e2. now_read e2 \<le> expiresAt stored \<longrightarrow>
            getUnifiedDashboard e2 inputs st1 =
              (Inr d,
               st1\<lparr>trace := trace st1 @ [Logged DashboardRequest,
                   CacheRead (generateCacheKey inputs), Logged CacheHit]\<rparr>)"
    using hit_result [OF present c] t v by simp
  with c v x show "\<exists>stored. cache st1 (generateCacheKey inputs) = Some stored \<and> cached stored = d \<and>
         (cache st (generateCacheKey inputs) = None \<longrightarrow>
            expiresAt stored = now_write e + default_ttl) \<and>
         (\<forall>e2. now_read e2 \<le> expiresAt stored \<longrightarrow>
            getUnifiedDashboard e2 inputs st1 =
              (Inr d,
               st1\<lparr>trace := trace st1 @ [Logged DashboardRequest,
                   CacheRead (generateCacheKey inputs), Logged CacheHit]\<rparr>))"
    by (intro exI [of _ stored]) simp
qed

theorem cache_hit_no_dispatch_witness:
  "getUnifiedDashboard mock_env (scenario_inputs [lit ''Heat'', lit ''Flood'']) warm_state =
     (Inr sample_dashboard,
      warm_state\<lparr>trace := [Logged DashboardRequest,
         CacheRead (generateCacheKey (scenario_inputs [lit ''Heat'', lit ''Flood''])), Logged CacheHit]\<rparr>) \<and>
   getUnifiedDashboard (real_env 1000 sample_dashboard) (scenario_inputs [lit ''Heat'', lit ''Flood'']) fresh_state
     = (Inr sample_dashboard, snd (getUnifiedDashboard (real_env 1000 sample_dashboard) (scenario_inputs [lit ''Heat'', lit ''Flood'']) fresh_state)) \<and>
   fst (getUnifiedDashboard (real_env 2000 JNull) (scenario_inputs [lit ''Heat'', lit ''Flood''])
      (snd (getUnifiedDashboard (real_env 1000 sample_dashboard) (scenario_inputs [lit ''Heat'', lit ''Flood'']) fresh_state)))
     = Inr sample_dashboard \<and>
   trace (snd (getUnifiedDashboard (real_env 2000 JNull) (scenario_inputs [lit ''Heat'', lit ''Flood''])
      (snd (getUnifiedDashboard (real_env 1000 sample_dashboard) (scenario_inputs [lit ''Heat'', lit ''Flood'']) fresh_state))))
     = trace (snd (getUnifiedDashboard (real_env 1000 sample_dashboard) (scenario_inputs [lit ''Heat'', lit ''Flood'']) fresh_state)) @
       [Logged DashboardRequest,
         CacheRead (generateCacheKey (scenario_inputs [lit ''Heat'', lit ''Flood''])), Logged CacheHit]"
proof -
  let ?i = "scenario_inputs [lit ''Heat'', lit ''Flood'']"
  let ?first = "getUnifiedDashboard (real_env 1000 sample_dashboard) ?i fresh_state"
  have p: "inputs_present ?i" by (simp add: scenario_present)
  have a: "inputs_present ?i \<and> cache warm_state (generateCacheKey ?i) =
       Some \<lparr>cached = sample_dashboard, expiresAt = 5000\<rparr> \<and>
     now_read mock_env \<le> expiresAt \<lparr>cached = sample_dashboard, expiresAt = 5000\<rparr> \<and>
     truthy (cached \<lparr>cached = sample_dashboard, expiresAt = 5000\<rparr>)"
    by (simp add: p warm_state_def mock_env_def sample_dashboard_object)
  have f: "?first = (Inr sample_dashboard, snd ?first)"
    by (simp add: real_first_call)
  have n: "cache fresh_state (generateCacheKey ?i) = None" by (simp add: fresh_state_def)
  from cache_hit_no_dispatch [of ?i warm_state "\<lparr>cached = sample_dashboard, expiresAt = 5000\<rparr>"
      mock_env JNull fresh_state] a
  have 1: "getUnifiedDashboard mock_env ?i warm_state =
     (Inr sample_dashboard,
      warm_state\<lparr>trace := [Logged DashboardRequest, CacheRead (generateCacheKey ?i), Logged CacheHit]\<rparr>)"
    by (simp add: warm_state_def)
  have "?first = (Inr sample_dashboard, snd ?first) \<longrightarrow>
      (\<exists>stored. cache (snd ?first) (generateCacheKey ?i) = Some stored \<and> cached stored = sample_dashboard \<and>
         (cache fresh_state (generateCacheKey ?i) = None \<longrightarrow>
            expiresAt stored = now_write (real_env 1000 sample_dashboard) + default_ttl) \<and>
         (\<forall>e2. now_read e2 \<le> expiresAt stored \<longrightarrow>
            getUnifiedDashboard e2 ?i (snd ?first) =
              (Inr sample_dashboard,
               (snd ?first)\<lparr>trace := trace (snd ?first) @ [Logged DashboardRequest,
                   CacheRead (generateCacheKey ?i), Logged CacheHit]\<rparr>)))"
    using cache_hit_no_dispatch [of ?i fresh_state "\<lparr>cached = sample_dashboard, expiresAt = 5000\<rparr>"
      "real_env 1000 sample_dashboard" sample_dashboard "snd ?first"]
    by (rule conjunct2)
  from this f obtain stored where s: "cache (snd ?first) (generateCacheKey ?i) = Some stored \<and> cached stored = sample_dashboard \<and>
         (cache fresh_state (generateCacheKey ?i) = None \<longrightarrow>
            expiresAt stored = now_write (real_env 1000 sample_dashboard) + default_ttl) \<and>
         (\<forall>e2. now_read e2 \<le> expiresAt stored \<longrightarrow>
            getUnifiedDashboard e2 ?i (snd ?first) =
              (Inr sample_dashboard,
               (snd ?first)\<lparr>trace := trace (snd ?first) @ [Logged DashboardRequest,
                   CacheRead (generateCacheKey ?i), Logged CacheHit]\<rparr>))"
    by (elim impE exE) assumption
  from s n have x: "expiresAt stored = now_write (real_env 1000 sample_dashboard) + default_ttl"
    by (elim conjE impE) assumption
  from s have h: "\<forall>e2. now_read e2 \<le> expiresAt stored \<longrightarrow>
            getUnifiedDashboard e2 ?i (snd ?first) =
              (Inr sample_dashboard,
               (snd ?first)\<lparr>trace := trace (snd ?first) @ [Logged DashboardRequest,
                   CacheRead (generateCacheKey ?i), Logged CacheHit]\<rparr>)"
    by (elim conjE)
  have le: "now_read (real_env 2000 JNull) \<le> expiresAt stored"
    by (simp add: x real_env_def default_ttl_def)
  from h le have 2: "getUnifiedDashboard (real_env 2000 JNull) ?i (snd ?first) =
              (Inr sample_dashboard,
               (snd ?first)\<lparr>trace := trace (snd ?first) @ [Logged DashboardRequest,
                   CacheRead (generateCacheKey ?i), Logged CacheHit]\<rparr>)"
    by (elim allE impE) assumption
  from 1 f 2 show ?thesis by simp
qed

section \<open>The simulated strategy against the contract\<close>

lemma mock_baseline_invalid:
  "\<not> fst (zparse BaselineSchema p (getBaseline inputs)) \<and>
   mk_issue_received (p @ [Key (lit ''unit'')]) (lit ''Unit must be '' @ degree_C)
       (JStr source_unit)
     \<in> set (snd (zparse BaselineSchema p (getBaseline inputs)))"
proof -
  let ?lit = "ZLiteral degree_C (Some (lit ''Unit must be '' @ degree_C))"
  let ?kvs = "[(lit ''warming_estimate'', num (if precision_level inputs = Some Exact then 14 / 10 else 12 / 10)),
         (lit ''unit'', JStr source_unit),
         (lit ''period_comparison'', JStr (lit ''vs 1850-1900 global baseline'')),
         (lit ''confidence'', JObj
            [(lit ''level'',
                JStr (if precision_level inputs = Some Exact then lit ''High'' else lit ''Medium'')),
             (lit ''reason'',
                JStr (if precision_level inputs = Some Exact
                      then lit ''Anchored to NOAA v5.1 modern reanalysis''
                      else lit ''ERA5 reanalysis with bias correction''))])]"
  have b: "getBaseline inputs = JObj ?kvs" by (simp add: getBaseline_def)
  have u: "get_prop (lit ''unit'') ?kvs = JStr source_unit"
    by (simp add: get_prop_def lit_def)
  have z: "zparse ?lit (p @ [Key (lit ''unit'')]) (JStr source_unit) =
      (False, [mk_issue_received (p @ [Key (lit ''unit'')]) (lit ''Unit must be '' @ degree_C)
       (JStr source_unit)])"
    by (simp add: source_unit_def degree_C_def or_default_def)
  have 1: "\<not> fst (zparse BaselineSchema p (JObj ?kvs))"
    unfolding BaselineSchema_def
    by (rule zparse_object_invalid [where k = "lit ''unit''" and s = ?lit])
       (simp_all only: u z, simp_all)
  have 2: "mk_issue_received (p @ [Key (lit ''unit'')]) (lit ''Unit must be '' @ degree_C)
       (JStr source_unit)
     \<in> set (snd (zparse BaselineSchema p (JObj ?kvs)))"
    unfolding BaselineSchema_def
    by (rule zparse_object_issue [where k = "lit ''unit''" and s = ?lit])
       (simp_all only: u z, simp_all)
  from 1 2 b show ?thesis by simp
qed

lemma mock_dashboard_invalid:
  "\<not> fst (zparse DashboardViewModelSchema [] (mock_dashboard e inputs)) \<and>
   mk_issue_received [Key (lit ''baseline''), Key (lit ''unit'')]
       (lit ''Unit must be '' @ degree_C) (JStr source_unit)
     \<in> set (snd (zparse DashboardViewModelSchema [] (mock_dashboard e inputs)))"
proof -
  obtain kvs where m: "mock_dashboard e inputs = JObj kvs"
    and g: "get_prop (lit ''baseline'') kvs = getBaseline inputs"
    by (simp add: mock_dashboard_def Let_def get_prop_def lit_def)
  from mock_baseline_invalid [of "[Key (lit ''baseline'')]" inputs]
  have b1: "\<not> fst (zparse BaselineSchema ([] @ [Key (lit ''baseline'')]) (get_prop (lit ''baseline'') kvs))"
    and b2: "mk_issue_received [Key (lit ''baseline''), Key (lit ''unit'')]
       (lit ''Unit must be '' @ degree_C) (JStr source_unit)
     \<in> set (snd (zparse BaselineSchema ([] @ [Key (lit ''baseline'')]) (get_prop (lit ''baseline'') kvs)))"
    by (simp_all add: g)
  have 1: "\<not> fst (zparse DashboardViewModelSchema [] (JObj kvs))"
    unfolding DashboardViewModelSchema_def
    by (rule zparse_object_invalid [where k = "lit ''baseline''" and s = BaselineSchema, OF _ b1]) simp
  have 2: "mk_issue_received [Key (lit ''baseline''), Key (lit ''unit'')]
       (lit ''Unit must be '' @ degree_C) (JStr source_unit)
     \<in> set (snd (zparse DashboardViewModelSchema [] (JObj kvs)))"
    unfolding DashboardViewModelSchema_def
    by (rule zparse_object_issue [where k = "lit ''baseline''" and s = BaselineSchema, OF _ b2]) simp
  from 1 2 m show ?thesis by simp
qed

lemma format_unit_issue:
  "format_issue (mk_issue_received [Key (lit ''baseline''), Key (lit ''unit'')]
       (lit ''Unit must be '' @ degree_C) (JStr source_unit))
     = baseline_unit_entry"
  by (simp add: format_issue_def mk_issue_received_def path_text_def baseline_unit_entry_def
      lit_def)

lemma mock_dashboard_writable: "stringify_throws (mock_dashboard e inputs) = None"
  by (simp add: mock_dashboard_def getRegion_def getBaseline_def getChain_def chain_nodes_def
      risk_node_def DatasetRegistry_toArray_def num_def str_array_def Let_def
      split: option.splits)

lemma mock_dashboard_reads:
  "chain_throws (mock_dashboard e inputs) (lit ''metadata'') (lit ''dataset_versions'') = None"
  by (simp add: chain_throws_def read_throws_def read_prop_def accessor_throws_def
      is_nullish_def mock_dashboard_def DatasetRegistry_toArray_def get_prop_def lit_def Let_def)

lemma mock_validation_fails:
  "validateDashboard dev (mock_dashboard e inputs) = Inr (failure_report (mock_dashboard e inputs)) \<and>
   \<not> success (failure_report (mock_dashboard e inputs)) \<and>
   (\<exists>es. errors (failure_report (mock_dashboard e inputs)) = Some es \<and> baseline_unit_entry \<in> set es)"
proof -
  let ?d = "mock_dashboard e inputs"
  let ?i = "mk_issue_received [Key (lit ''baseline''), Key (lit ''unit'')]
       (lit ''Unit must be '' @ degree_C) (JStr source_unit)"
  from mock_dashboard_invalid [of e inputs]
  have bad: "\<not> fst (zparse DashboardViewModelSchema [] ?d)"
    and mem: "?i \<in> set (snd (zparse DashboardViewModelSchema [] ?d))" by simp_all
  from bad have v: "validateDashboard dev ?d = Inr (failure_report ?d)"
    by (simp add: writable_validated mock_dashboard_writable)
  from mem have "format_issue ?i \<in> set (map format_issue (snd (zparse DashboardViewModelSchema [] ?d)))"
    by simp
  then have "baseline_unit_entry \<in> set (map format_issue (snd (zparse DashboardViewModelSchema [] ?d)))"
    by (simp only: format_unit_issue)
  with v show ?thesis by (simp add: failure_report_def)
qed

lemma mock_miss_fails:
  assumes "mode (config e) = Mock"
  shows "on_cache_miss e inputs k st =
    (Inl (Error (invalid_structure_message (failure_report (mock_dashboard e inputs)))),
     st\<lparr>trace := trace st @ [Logged CacheMiss, Logged UsingMock, RegionCalled, BaselineCalled,
        ChainCalled, Validated, Logged ValidationFailed]\<rparr>)"
proof -
  from mock_validation_fails [of "development e" e inputs]
  have v: "validateDashboard (development e) (mock_dashboard e inputs) =
      Inr (failure_report (mock_dashboard e inputs))"
    and f: "\<not> success (failure_report (mock_dashboard e inputs))"
    by simp_all
  show ?thesis using assms v f mock_dashboard_reads [of e inputs, unfolded lit_def, simplified]
    by (simp add: on_cache_miss_def dispatch_mock_def emit_def Let_def lit_def)
qed

text \<open>
  C3, on the code.  In mock mode on a cache miss, with the inputs of scenario 1, the
  baseline the simulated climate service returns has the unit of the three code units
  194, 176, 67, which is not the degree sign followed by C that the contract demands.
  The assembled dashboard fails \<open>validateDashboard\<close>, in either mode of it, with the entry
  \<open>baseline.unit: Unit must be ...\<close> among its errors, and \<open>getUnifiedDashboard\<close> returns
  no dashboard: it throws \<open>Invalid dashboard structure: ...\<close> and caches nothing.
\<close>

theorem mock_scenario_fails_validation:
  "getUnifiedDashboard mock_env (scenario_inputs [lit ''Heat'', lit ''Flood'']) fresh_state =
     (Inl (Error (invalid_structure_message (failure_report
        (mock_dashboard mock_env (scenario_inputs [lit ''Heat'', lit ''Flood'']))))),
      \<lparr>cache = Map.empty,
       trace = [Logged DashboardRequest,
                CacheRead (generateCacheKey (scenario_inputs [lit ''Heat'', lit ''Flood''])),
                Logged CacheMiss, Logged UsingMock, RegionCalled, BaselineCalled, ChainCalled,
                Validated, Logged ValidationFailed]\<rparr>) \<and>
   read_prop (read_prop (mock_dashboard mock_env (scenario_inputs [lit ''Heat'', lit ''Flood'']))
      (lit ''baseline'')) (lit ''unit'') = JStr [194, 176, 67] \<and>
   JStr [194, 176, 67] \<noteq> JStr degree_C \<and>
   validateDashboard dev (mock_dashboard mock_env (scenario_inputs [lit ''Heat'', lit ''Flood''])) =
     Inr (failure_report (mock_dashboard mock_env (scenario_inputs [lit ''Heat'', lit ''Flood'']))) \<and>
   \<not> success (failure_report (mock_dashboard mock_env (scenario_inputs [lit ''Heat'', lit ''Flood'']))) \<and>
   (\<exists>es. errors (failure_report (mock_dashboard mock_env
        (scenario_inputs [lit ''Heat'', lit ''Flood'']))) = Some es \<and> baseline_unit_entry \<in> set es)"
proof -
  let ?i = "scenario_inputs [lit ''Heat'', lit ''Flood'']"
  have p: "inputs_present ?i" by (simp add: scenario_present)
  have m: "mode (config mock_env) = Mock" by (simp add: mock_env_def)
  have 1: "getUnifiedDashboard mock_env ?i fresh_state =
     (Inl (Error (invalid_structure_message (failure_report (mock_dashboard mock_env ?i)))),
      \<lparr>cache = Map.empty,
       trace = [Logged DashboardRequest, CacheRead (generateCacheKey ?i),
                Logged CacheMiss, Logged UsingMock, RegionCalled, BaselineCalled, ChainCalled,
                Validated, Logged ValidationFailed]\<rparr>)"
    using p
    by (simp add: getUnifiedDashboard_def inputs_check CacheLayer_get_def fresh_state_def
        mock_miss_fails [OF m] emit_def Let_def)
  have 2: "read_prop (read_prop (mock_dashboard mock_env ?i) (lit ''baseline'')) (lit ''unit'')
      = JStr [194, 176, 67]"
    by (simp add: read_prop_def mock_dashboard_def getBaseline_def get_prop_def source_unit_def
        lit_def Let_def)
  have 3: "JStr [194, 176, 67] \<noteq> JStr degree_C" by (simp add: degree_C_def)
  from 1 2 3 mock_validation_fails [of dev mock_env ?i] show ?thesis by simp
qed

section \<open>Properties of the local HTTP route\<close>

text \<open>
  The four answers of the route.  A method other than POST gets 405; a POST that the
  route's own check rejects gets 400 and the body \<open>{error: invalid_request, message}\<close>;
  any other POST gets 200 and the dashboard when the orchestrator returns one, and 500 and
  the body \<open>{error: internal_server_error, message}\<close>, the message being the
  exception's, when the orchestrator throws.
\<close>

lemma handler_answers:
  "(http_method req \<noteq> lit ''POST'' \<longrightarrow>
      handler e req st =
        (\<lparr>status = 405,
          body = ErrorBody (lit ''method_not_allowed'') (lit ''Only POST allowed'')\<rparr>, st)) \<and>
   (http_method req = lit ''POST'' \<and> route_rejects (request_body req) \<longrightarrow>
      handler e req st =
        (\<lparr>status = 400,
          body = ErrorBody (lit ''invalid_request'')
                   (lit ''Missing required fields: location_key, selected_hazards'')\<rparr>, st)) \<and>
   (http_method req = lit ''POST'' \<and> \<not> route_rejects (request_body req) \<and>
    getUnifiedDashboard e (to_wizardState (request_body req)) st = (Inr result, st') \<longrightarrow>
      handler e req st = (\<lparr>status = 200, body = DashboardBody result\<rparr>, st')) \<and>
   (http_method req = lit ''POST'' \<and> \<not> route_rejects (request_body req) \<and>
    getUnifiedDashboard e (to_wizardState (request_body req)) st = (Inl err, st') \<longrightarrow>
      handler e req st =
        (\<lparr>status = 500,
          body = ErrorBody (lit ''internal_server_error'') (exn_message err)\<rparr>, st'))"
  by (auto simp: handler_def route_rejects_def Let_def split: option.splits)

lemma to_wizardState_scenario:
  "to_wizardState scenario_body = scenario_inputs [lit ''Heat'', lit ''Flood'']"
  by (simp add: to_wizardState_def scenario_body_def scenario_inputs_def)

lemma handler_answers_scenario:
  "status (fst (handler mock_env \<lparr>http_method = lit ''GET'', request_body = scenario_body\<rparr> fresh_state)) = 405 \<and>
   status (fst (handler mock_env (post (scenario_body\<lparr>rq_location_key := None\<rparr>)) fresh_state)) = 400 \<and>
   handler (real_env 1000 sample_dashboard) (post scenario_body) fresh_state =
     (\<lparr>status = 200, body = DashboardBody sample_dashboard\<rparr>,
      snd (getUnifiedDashboard (real_env 1000 sample_dashboard) (scenario_inputs [lit ''Heat'', lit ''Flood'']) fresh_state)) \<and>
   fst (handler mock_env (post scenario_body) fresh_state) =
     \<lparr>status = 500, body = ErrorBody (lit ''internal_server_error'')
        (invalid_structure_message (failure_report
           (mock_dashboard mock_env (scenario_inputs [lit ''Heat'', lit ''Flood'']))))\<rparr>"
proof -
  let ?i = "scenario_inputs [lit ''Heat'', lit ''Flood'']"
  let ?get = "\<lparr>http_method = lit ''GET'', request_body = scenario_body\<rparr>"
  let ?first = "getUnifiedDashboard (real_env 1000 sample_dashboard) ?i fresh_state"
  let ?mock = "getUnifiedDashboard mock_env ?i fresh_state"
  let ?msg = "invalid_structure_message (failure_report (mock_dashboard mock_env ?i))"
  have g: "http_method ?get \<noteq> lit ''POST''" by (simp add: lit_def)
  have pm: "\<And>b. http_method (post b) = lit ''POST''" "\<And>b. request_body (post b) = b"
    by (simp_all add: post_def)
  have r: "route_rejects (scenario_body\<lparr>rq_location_key := None\<rparr>)"
    by (simp add: route_rejects_def falsy_def)
  have nr: "\<not> route_rejects scenario_body"
    by (simp add: route_rejects_def falsy_def scenario_body_def lit_def)
  have f: "getUnifiedDashboard (real_env 1000 sample_dashboard) (to_wizardState (request_body (post scenario_body))) fresh_state
      = (Inr sample_dashboard, snd ?first)"
    by (simp add: pm to_wizardState_scenario real_first_call)
  have m: "getUnifiedDashboard mock_env (to_wizardState (request_body (post scenario_body))) fresh_state
      = (Inl (Error ?msg), snd ?mock)"
    using mock_miss_fails [of mock_env ?i] scenario_present [of "[lit ''Heat'', lit ''Flood'']"]
    by (simp add: pm to_wizardState_scenario getUnifiedDashboard_def inputs_check
        CacheLayer_get_def fresh_state_def mock_env_def Let_def)
  from handler_answers [of ?get mock_env fresh_state JNull fresh_state "Error []"] g
  have 1: "status (fst (handler mock_env ?get fresh_state)) = 405" by simp
  from handler_answers [of "post (scenario_body\<lparr>rq_location_key := None\<rparr>)" mock_env fresh_state JNull fresh_state "Error []"] r
  have 2: "status (fst (handler mock_env (post (scenario_body\<lparr>rq_location_key := None\<rparr>)) fresh_state)) = 400"
    by (simp add: pm)
  from handler_answers [of "post scenario_body" "real_env 1000 sample_dashboard" fresh_state sample_dashboard "snd ?first" "Error []"] nr f
  have 3: "handler (real_env 1000 sample_dashboard) (post scenario_body) fresh_state =
     (\<lparr>status = 200, body = DashboardBody sample_dashboard\<rparr>, snd ?first)"
    by (simp add: pm)
  from handler_answers [of "post scenario_body" mock_env fresh_state JNull "snd ?mock" "Error ?msg"] nr m
  have 4: "handler mock_env (post scenario_body) fresh_state =
    (\<lparr>status = 500, body = ErrorBody (lit ''internal_server_error'') ?msg\<rparr>, snd ?mock)"
    by (simp add: pm)
  from 1 2 3 4 show ?thesis by simp
qed

text \<open>
  C9, on the code.  A POST that carries \<open>location_key\<close> and \<open>selected_hazards\<close> but no
  \<open>selected_system\<close> (or an empty one) passes the route's own check, which tests the first
  two fields only.  The orchestrator then throws its input error, before it reads the
  cache or dispatches, and the route answers 500 with the body
  \<open>{error: internal_server_error, message: Missing required inputs: location_key,
  selected_hazards, selected_system}\<close>, not 400.
\<close>

theorem handler_missing_system_fails:
  "http_method req = lit ''POST'' \<Longrightarrow> \<not> route_rejects (request_body req) \<Longrightarrow>
   falsy (rq_selected_system (request_body req)) \<Longrightarrow>
   handler e req st =
     (\<lparr>status = 500,
       body = ErrorBody (lit ''internal_server_error'') missing_inputs_message\<rparr>,
      st\<lparr>trace := trace st @ [Logged MissingInputs]\<rparr>)"
  by (auto simp: handler_def route_rejects_def to_wizardState_def getUnifiedDashboard_def
      emit_def Let_def split: option.splits)

text \<open>
  The scenario's request without \<open>selected_system\<close> is answered 500; the same request
  without \<open>location_key\<close>, or without \<open>selected_hazards\<close>, is answered 400.
\<close>

theorem handler_missing_system_fails_witness:
  "rq_selected_system (scenario_body\<lparr>rq_selected_system := None\<rparr>) = None \<and>
   handler mock_env (post (scenario_body\<lparr>rq_selected_system := None\<rparr>)) fresh_state =
     (\<lparr>status = 500,
       body = ErrorBody (lit ''internal_server_error'') missing_inputs_message\<rparr>,
      \<lparr>cache = Map.empty, trace = [Logged MissingInputs]\<rparr>) \<and>
   status (fst (handler mock_env (post (scenario_body\<lparr>rq_location_key := None\<rparr>)) fresh_state)) = 400 \<and>
   status (fst (handler mock_env (post (scenario_body\<lparr>rq_selected_hazards := None\<rparr>)) fresh_state)) = 400"
proof -
  let ?b = "scenario_body\<lparr>rq_selected_system := None\<rparr>"
  have 1: "http_method (post ?b) = lit ''POST''" by (simp add: post_def)
  have 2: "\<not> route_rejects (request_body (post ?b))"
    by (simp add: post_def route_rejects_def falsy_def scenario_body_def lit_def)
  have 3: "falsy (rq_selected_system (request_body (post ?b)))"
    by (simp add: post_def falsy_def)
  from handler_missing_system_fails [OF 1 2 3, of mock_env fresh_state]
  have a: "handler mock_env (post ?b) fresh_state =
     (\<lparr>status = 500,
       body = ErrorBody (lit ''internal_server_error'') missing_inputs_message\<rparr>,
      \<lparr>cache = Map.empty, trace = [Logged MissingInputs]\<rparr>)"
    by (simp add: fresh_state_def)
  have b: "status (fst (handler mock_env (post (scenario_body\<lparr>rq_location_key := None\<rparr>)) fresh_state)) = 400"
    by (simp add: handler_def post_def falsy_def)
  have c: "status (fst (handler mock_env (post (scenario_body\<lparr>rq_selected_hazards := None\<rparr>)) fresh_state)) = 400"
    by (simp add: handler_def post_def falsy_def)
  from a b c show ?thesis by simp
qed

section \<open>Properties of the input-drift effect\<close>

lemma generateDashboardKey_nonempty: "generateDashboardKey ws \<noteq> []"
  by (simp add: generateDashboardKey_def json_object_def)

text \<open>
  C8.  While a dashboard is displayed and the key recorded with it is \<open>k1\<close>, a change of
  the wizard inputs whose recomputed key differs from \<open>k1\<close> discards the displayed
  dashboard and the recorded key (and the error, and shows one warning), and moves a
  flow that is past step 3, where the inputs are collected, back to step 3; a change that
  leaves the recomputed key equal to \<open>k1\<close> changes nothing but the inputs themselves.
\<close>

theorem drift_invalidation:
  "dashboardData s = Some d \<and> truthy d \<and>
   dashboardRequestKey s = Some (generateDashboardKey ws0) \<longrightarrow>
     (generateDashboardKey ws \<noteq> generateDashboardKey ws0 \<longrightarrow>
        change_inputs ws s =
          s\<lparr>wizardState := ws,
            warnings := warnings s + 1,
            dashboardData := None,
            dashboardRequestKey := None,
            dashboardError := None,
            currentStep := (if currentStep s > 3 then 3 else currentStep s)\<rparr>) \<and>
     (generateDashboardKey ws = generateDashboardKey ws0 \<longrightarrow>
        change_inputs ws s = s\<lparr>wizardState := ws\<rparr>)"
  by (simp add: change_inputs_def invalidate_effect_def generateDashboardKey_nonempty Let_def)

lemma scenario_keys_differ:
  "generateDashboardKey (scenario_inputs [lit ''Heat'']) \<noteq>
   generateDashboardKey (scenario_inputs [lit ''Heat'', lit ''Flood''])"
  by (simp add: generateDashboardKey_def scenario_inputs_def json_object_def json_array_def
      json_quote_def escape_unit_def is_lead_surrogate_def is_trail_surrogate_def lit_def)

lemma scenario_keys_same:
  "generateDashboardKey (scenario_inputs [lit ''Flood'', lit ''Heat'']) =
   generateDashboardKey (scenario_inputs [lit ''Heat'', lit ''Flood''])"
  by (simp add: generateDashboardKey_def scenario_inputs_def lit_def)

theorem drift_invalidation_witness:
  "change_inputs (scenario_inputs [lit ''Heat'']) showing_flow =
     showing_flow\<lparr>wizardState := scenario_inputs [lit ''Heat''], warnings := 1,
       dashboardData := None, dashboardRequestKey := None, dashboardError := None,
       currentStep := 3\<rparr> \<and>
   change_inputs (scenario_inputs [lit ''Flood'', lit ''Heat'']) showing_flow =
     showing_flow\<lparr>wizardState := scenario_inputs [lit ''Flood'', lit ''Heat'']\<rparr>"
proof -
  let ?ws0 = "scenario_inputs [lit ''Heat'', lit ''Flood'']"
  have h: "dashboardData showing_flow = Some sample_dashboard \<and> truthy sample_dashboard \<and>
      dashboardRequestKey showing_flow = Some (generateDashboardKey ?ws0)"
    by (simp add: showing_flow_def sample_dashboard_object)
  from drift_invalidation [of showing_flow sample_dashboard ?ws0 "scenario_inputs [lit ''Heat'']"] h
    scenario_keys_differ
  have 1: "change_inputs (scenario_inputs [lit ''Heat'']) showing_flow =
     showing_flow\<lparr>wizardState := scenario_inputs [lit ''Heat''], warnings := 1,
       dashboardData := None, dashboardRequestKey := None, dashboardError := None,
       currentStep := 3\<rparr>"
    by (simp add: showing_flow_def)
  from drift_invalidation [of showing_flow sample_dashboard ?ws0 "scenario_inputs [lit ''Flood'', lit ''Heat'']"] h
    scenario_keys_same
  have 2: "change_inputs (scenario_inputs [lit ''Flood'', lit ''Heat'']) showing_flow =
     showing_flow\<lparr>wizardState := scenario_inputs [lit ''Flood'', lit ''Heat'']\<rparr>"
    by simp
  from 1 2 show ?thesis by simp
qed

section \<open>Hazard order in the simulated strategy\<close>

lemma key_of_permutation:
  "mset hs = mset (selected_hazards a) \<Longrightarrow>
   generateCacheKey (a\<lparr>selected_hazards := hs\<rparr>) = generateCacheKey a"
  by (simp add: generateCacheKey_def sort_mset_cong [of hs "selected_hazards a"])

lemma mock_chain_labels:
  "chain_hazard (mock_dashboard e inputs) = JStr (hazardLabel inputs) \<and>
   chain_system (mock_dashboard e inputs) = JStr (systemLabel inputs)"
  by (simp add: chain_hazard_def chain_system_def read_prop_def mock_dashboard_def getChain_def
      get_prop_def lit_def Let_def)

text \<open>
  C10, as the code has it.  In mock mode the dispatched dashboard takes
  \<open>risk_chain.hazard\<close> from the first selected hazard in the order supplied, when that
  tag is not the empty string, and \<open>risk_chain.system\<close> from the selected system.  The
  scenario's inputs with the hazards in the two orders have the same fingerprint and
  dispatched dashboards with different \<open>risk_chain.hazard\<close>.  Whenever a call for one
  ordering returns a dashboard, that dashboard is what the cache holds under the shared
  fingerprint and what a later call with any permutation of the hazards returns, as long
  as the entry has not expired.
\<close>

theorem mock_hazard_follows_order:
  "(selected_hazards inputs = h # hs \<and> h \<noteq> [] \<and>
    selected_system inputs = Some sy \<and> sy \<noteq> [] \<longrightarrow>
      chain_hazard (mock_dashboard e inputs) = JStr h \<and>
      chain_system (mock_dashboard e inputs) = JStr sy) \<and>
   (mset [lit ''Flood'', lit ''Heat''] = mset [lit ''Heat'', lit ''Flood''] \<and>
    generateCacheKey (scenario_inputs [lit ''Flood'', lit ''Heat'']) =
      generateCacheKey (scenario_inputs [lit ''Heat'', lit ''Flood'']) \<and>
    chain_hazard (mock_dashboard e (scenario_inputs [lit ''Flood'', lit ''Heat''])) \<noteq>
      chain_hazard (mock_dashboard e (scenario_inputs [lit ''Heat'', lit ''Flood'']))) \<and>
   (getUnifiedDashboard e1 a st = (Inr d, st1) \<and> mset hs' = mset (selected_hazards a) \<longrightarrow>
      (\<exists>stored. cache st1 (generateCacheKey (a\<lparr>selected_hazards := hs'\<rparr>)) = Some stored \<and>
         cached stored = d \<and>
         (\<forall>e2. now_read e2 \<le> expiresAt stored \<longrightarrow>
            fst (getUnifiedDashboard e2 (a\<lparr>selected_hazards := hs'\<rparr>) st1) = Inr d)))"
proof (intro conjI impI)
  assume "selected_hazards inputs = h # hs \<and> h \<noteq> [] \<and>
    selected_system inputs = Some sy \<and> sy \<noteq> []"
  then have "hazardLabel inputs = h" "systemLabel inputs = sy"
    by (simp_all add: hazardLabel_def systemLabel_def)
  with mock_chain_labels [of e inputs]
  show "chain_hazard (mock_dashboard e inputs) = JStr h"
    and "chain_system (mock_dashboard e inputs) = JStr sy" by simp_all
next
  show "mset [lit ''Flood'', lit ''Heat''] = mset [lit ''Heat'', lit ''Flood'']" by simp
  show "generateCacheKey (scenario_inputs [lit ''Flood'', lit ''Heat'']) =
      generateCacheKey (scenario_inputs [lit ''Heat'', lit ''Flood''])"
    by (simp add: generateCacheKey_def scenario_inputs_def lit_def)
  show "chain_hazard (mock_dashboard e (scenario_inputs [lit ''Flood'', lit ''Heat''])) \<noteq>
      chain_hazard (mock_dashboard e (scenario_inputs [lit ''Heat'', lit ''Flood'']))"
    using mock_chain_labels [of e "scenario_inputs [lit ''Flood'', lit ''Heat'']"]
      mock_chain_labels [of e "scenario_inputs [lit ''Heat'', lit ''Flood'']"]
    by (simp add: hazardLabel_def scenario_inputs_def lit_def)
next
  assume h: "getUnifiedDashboard e1 a st = (Inr d, st1) \<and> mset hs' = mset (selected_hazards a)"
  let ?b = "a\<lparr>selected_hazards := hs'\<rparr>"
  from h have first: "getUnifiedDashboard e1 a st = (Inr d, st1)"
    and perm: "mset hs' = mset (selected_hazards a)" by simp_all
  from success_leaves_entry [OF first]
  obtain stored where pa: "inputs_present a" and t: "truthy d"
    and c: "cache st1 (generateCacheKey a) = Some stored" and v: "cached stored = d"
    by auto
  have k: "generateCacheKey ?b = generateCacheKey a" by (rule key_of_permutation [OF perm])
  from pa perm have pb: "inputs_present ?b"
    by (auto simp: inputs_present_def)
  have "\<forall>e2. now_read e2 \<le> expiresAt stored \<longrightarrow>
            fst (getUnifiedDashboard e2 ?b st1) = Inr d"
    using hit_result [of ?b st1 stored] pb c v t k by simp
  with c v k show "\<exists>stored. cache st1 (generateCacheKey ?b) = Some stored \<and>
         cached stored = d \<and>
         (\<forall>e2. now_read e2 \<le> expiresAt stored \<longrightarrow>
            fst (getUnifiedDashboard e2 ?b st1) = Inr d)"
    by (intro exI [of _ stored]) simp
qed

theorem mock_hazard_follows_order_witness:
  "chain_hazard (mock_dashboard mock_env (scenario_inputs [lit ''Heat'', lit ''Flood''])) = JStr (lit ''Heat'') \<and>
   chain_system (mock_dashboard mock_env (scenario_inputs [lit ''Heat'', lit ''Flood''])) = JStr (lit ''Health'') \<and>
   chain_hazard (mock_dashboard mock_env (scenario_inputs [lit ''Flood'', lit ''Heat''])) \<noteq>
     chain_hazard (mock_dashboard mock_env (scenario_inputs [lit ''Heat'', lit ''Flood''])) \<and>
   fst (getUnifiedDashboard (real_env 2000 JNull) (scenario_inputs [lit ''Flood'', lit ''Heat''])
      (snd (getUnifiedDashboard (real_env 1000 sample_dashboard)
         (scenario_inputs [lit ''Heat'', lit ''Flood'']) fresh_state))) = Inr sample_dashboard"
proof -
  let ?a = "scenario_inputs [lit ''Heat'', lit ''Flood'']"
  let ?b = "scenario_inputs [lit ''Flood'', lit ''Heat'']"
  let ?first = "getUnifiedDashboard (real_env 1000 sample_dashboard) ?a fresh_state"
  note t = mock_hazard_follows_order [of ?a "lit ''Heat''" "[lit ''Flood'']" "lit ''Health''" mock_env
      "real_env 1000 sample_dashboard" ?a fresh_state sample_dashboard "snd ?first"
      "[lit ''Flood'', lit ''Heat'']"]
  have h1: "selected_hazards ?a = lit ''Heat'' # [lit ''Flood''] \<and> lit ''Heat'' \<noteq> [] \<and>
      selected_system ?a = Some (lit ''Health'') \<and> lit ''Health'' \<noteq> []"
    by (simp add: scenario_inputs_def lit_def)
  have 1: "chain_hazard (mock_dashboard mock_env ?a) = JStr (lit ''Heat'') \<and>
      chain_system (mock_dashboard mock_env ?a) = JStr (lit ''Health'')"
    by (rule t [THEN conjunct1, THEN mp, OF h1])
  have 2: "chain_hazard (mock_dashboard mock_env ?b) \<noteq> chain_hazard (mock_dashboard mock_env ?a)"
    by (rule t [THEN conjunct2, THEN conjunct1, THEN conjunct2, THEN conjunct2])
  have f: "?first = (Inr sample_dashboard, snd ?first)" by (simp add: real_first_call)
  have m: "mset [lit ''Flood'', lit ''Heat''] = mset (selected_hazards ?a)"
    by (simp add: scenario_inputs_def)
  have b: "?a\<lparr>selected_hazards := [lit ''Flood'', lit ''Heat'']\<rparr> = ?b"
    by (simp add: scenario_inputs_def)
  from t [THEN conjunct2, THEN conjunct2, THEN mp, OF conjI [OF f m]]
  obtain stored where s: "cache (snd ?first)
        (generateCacheKey (?a\<lparr>selected_hazards := [lit ''Flood'', lit ''Heat'']\<rparr>)) = Some stored \<and>
      cached stored = sample_dashboard \<and>
      (\<forall>e2. now_read e2 \<le> expiresAt stored \<longrightarrow>
         fst (getUnifiedDashboard e2 (?a\<lparr>selected_hazards := [lit ''Flood'', lit ''Heat'']\<rparr>) (snd ?first))
           = Inr sample_dashboard)"
    ..
  have c: "cache (snd ?first) (generateCacheKey ?b) = Some stored"
    using s [unfolded b] by (elim conjE)
  have h: "\<forall>e2. now_read e2 \<le> expiresAt stored \<longrightarrow>
         fst (getUnifiedDashboard e2 ?b (snd ?first)) = Inr sample_dashboard"
    using s [unfolded b] by (elim conjE)
  have "generateCacheKey ?b = generateCacheKey ?a"
    by (simp add: generateCacheKey_def scenario_inputs_def lit_def)
  with c have "expiresAt stored = 1000 + 200 + default_ttl"
    by (auto simp: real_first_call)
  then have "now_read (real_env 2000 JNull) \<le> expiresAt stored"
    by (simp add: real_env_def default_ttl_def)
  with h have 3: "fst (getUnifiedDashboard (real_env 2000 JNull) ?b (snd ?first)) = Inr sample_dashboard"
    by (elim allE impE) assumption
  from 1 2 3 show ?thesis by simp
qed

text \<open>
  Against C10 as stated: when the first hazard tag is the empty string, the dispatched
  \<open>risk_chain.hazard\<close> is the default \<open>Heat\<close>, not the first element.
\<close>

theorem mock_hazard_default_counterexample:
  "inputs_present (scenario_inputs [[], lit ''Flood'']) \<and>
   selected_hazards (scenario_inputs [[], lit ''Flood'']) = [] # [lit ''Flood''] \<and>
   chain_hazard (mock_dashboard mock_env (scenario_inputs [[], lit ''Flood''])) = JStr (lit ''Heat'') \<and>
   JStr (lit ''Heat'') \<noteq> JStr []"
proof -
  have 1: "inputs_present (scenario_inputs [[], lit ''Flood''])"
    by (simp add: scenario_present)
  have 2: "selected_hazards (scenario_inputs [[], lit ''Flood'']) = [] # [lit ''Flood'']"
    by (simp add: scenario_inputs_def)
  have "hazardLabel (scenario_inputs [[], lit ''Flood'']) = lit ''Heat''"
    by (simp add: hazardLabel_def scenario_inputs_def)
  with mock_chain_labels [of mock_env "scenario_inputs [[], lit ''Flood'']"]
  have 3: "chain_hazard (mock_dashboard mock_env (scenario_inputs [[], lit ''Flood''])) =
      JStr (lit ''Heat'')" by simp
  have 4: "JStr (lit ''Heat'') \<noteq> JStr []" by (simp add: lit_def)
  from 1 2 3 4 show ?thesis by simp
qed

end
